theory Spec2Isabelle
  imports Complex_Main "HOL-Library.Sublist"
begin

section \<open>Python string operations used by the application\<close>

text \<open>
  A Python \<open>str\<close> is modelled as a \<open>string\<close>, one \<open>char\<close> per character. The
  operations below agree with Python's on ASCII text; the few non-ASCII glyphs of the
  portfolio template are written as their UTF-8 bytes.
\<close>

definition newline :: char where
  "newline = CHR 0x0A"

text \<open>\<open>str.isspace\<close> on one character, for the ASCII range.\<close>

definition isspace :: "char \<Rightarrow> bool" where
  "isspace c = (List.member
     [CHR 0x09, CHR 0x0A, CHR 0x0B, CHR 0x0C, CHR 0x0D,
      CHR 0x1C, CHR 0x1D, CHR 0x1E, CHR 0x1F, CHR 0x20] c)"

definition lstrip :: "string \<Rightarrow> string" where
  "lstrip s = dropWhile isspace s"

definition rstrip :: "string \<Rightarrow> string" where
  "rstrip s = rev (dropWhile isspace (rev s))"

text \<open>\<open>s.strip()\<close>\<close>

definition strip :: "string \<Rightarrow> string" where
  "strip s = lstrip (rstrip s)"

text \<open>\<open>s.startswith(p)\<close>\<close>

definition startswith :: "string \<Rightarrow> string \<Rightarrow> bool" where
  "startswith s p = (take (length p) s = p)"

text \<open>\<open>sub in s\<close>\<close>

fun contains :: "string \<Rightarrow> string \<Rightarrow> bool" where
  "contains sub [] = (sub = [])"
| "contains sub (c # cs) = (startswith (c # cs) sub \<or> contains sub cs)"

text \<open>\<open>s.split(sep)\<close> for a separator of one character: never an empty list.\<close>

fun split :: "char \<Rightarrow> string \<Rightarrow> string list" where
  "split sep [] = [[]]"
| "split sep (c # cs) =
     (if c = sep then [] # split sep cs
      else (case split sep cs of
              [] \<Rightarrow> [[c]]
            | w # ws \<Rightarrow> (c # w) # ws))"

text \<open>\<open>sep.join(xs)\<close>\<close>

fun join :: "string \<Rightarrow> string list \<Rightarrow> string" where
  "join sep [] = []"
| "join sep [x] = x"
| "join sep (x # y # ys) = x @ sep @ join sep (y # ys)"

text \<open>\<open>s.upper()\<close>: the letters a to z are mapped to A to Z.\<close>

definition upper_char :: "char \<Rightarrow> char" where
  "upper_char c =
     (case map_of (zip ''abcdefghijklmnopqrstuvwxyz'' ''ABCDEFGHIJKLMNOPQRSTUVWXYZ'') c of
        Some u \<Rightarrow> u
      | None \<Rightarrow> c)"

definition upper :: "string \<Rightarrow> string" where
  "upper s = map upper_char s"

text \<open>\<open>str(n)\<close> for a natural number, in decimal.\<close>

fun str_nat :: "nat \<Rightarrow> string" where
  "str_nat n =
     (if n < 10 then [''0123456789'' ! n]
      else str_nat (n div 10) @ [''0123456789'' ! (n mod 10)])"

declare str_nat.simps [simp del]

section \<open>The document model (\<open>st.session_state.data\<close>)\<close>

text \<open>
  Entry ids are numbers: the initial entries carry the integer 1, added entries carry
  the float \<open>time.time()\<close>. Python compares them by value, as the reals do.
\<close>

type_synonym entry_id = real

record personal_details =
  name :: string
  email :: string
  phone :: string
  linkedin :: string

record education_entry =
  edu_id :: entry_id
  institution :: string
  degree :: string
  edu_dates :: string

record experience_entry =
  exp_id :: entry_id
  title :: string
  company :: string
  exp_dates :: string
  bullets :: string

record portfolio_entry =
  proj_id :: entry_id
  proj_name :: string
  link :: string
  description :: string

record cover_letter_inputs =
  cl_company :: string
  cl_title :: string

record document =
  personal :: personal_details
  summary :: string
  education :: "education_entry list"
  experience :: "experience_entry list"
  skills :: "string list"
  portfolio :: "portfolio_entry list"
  cover_letter_inputs :: cover_letter_inputs
  cover_letter_draft :: string

text \<open>\<open>st.session_state.ai_loading\<close>: \<open>None\<close>, a use-case key, or an entry id.\<close>

datatype loading = Key string | Id entry_id

text \<open>What the application shows through \<open>st.warning\<close>, \<open>st.error\<close> and \<open>st.markdown\<close>.\<close>

datatype ui_event = Warning string | ErrorMsg string | Markdown string

text \<open>A call of \<open>client.models.generate_content\<close>: model, prompt, system instruction.\<close>

type_synonym request = "string \<times> string \<times> string"

text \<open>
  The session state together with the effects the code has on the outside: the
  requests sent to the generation service, the messages shown, the seconds slept.
\<close>

record world =
  data :: document
  ai_loading :: "loading option"
  generated_html :: string
  theme :: string
  requests :: "request list"
  ui_log :: "ui_event list"
  sleeps :: "nat list"

definition initial_data :: document where
  "initial_data = \<lparr>
     personal = \<lparr> name = ''Student Name'', email = ''email@example.com'',
                  phone = ''123-456-7890'', linkedin = ''https//linkedin/profile'' \<rparr>,
     summary = ''A highly motivated student seeking a challenging internship in AI and Cloud computing, leveraging strong foundational skills in Python and machine learning to drive impactful project execution.'',
     education = [\<lparr> edu_id = 1, institution = ''University/College Name'',
                    degree = ''B.Tech/B.Sc in Computer Science'', edu_dates = ''2021 - 2025'' \<rparr>],
     experience = [\<lparr> exp_id = 1, title = ''AI and Cloud Intern'',
                     company = ''Edunet/IBM SkillsBuild'', exp_dates = ''June 2024 - Present'',
                     bullets = ''Successfully completed AI and Cloud internship project.\<newline>Gained hands-on experience with cloud services and generative AI tools.\<newline>Applied Python and data analysis techniques to optimize project outcomes.'' \<rparr>],
     skills = [''Python'', ''Cloud Computing (IBM/AWS/Azure)'', ''Generative AI'',
               ''Data Analysis'', ''Web Development (React/JS)''],
     portfolio = [\<lparr> proj_id = 1, proj_name = ''AI Resume Builder Project'',
                    link = ''https://github.com/my-project'',
                    description = ''Developed an AI tool to generate and optimize resumes and portfolios using Gemini API for content refinement.'' \<rparr>],
     cover_letter_inputs = \<lparr> cl_company = '''', cl_title = '''' \<rparr>,
     cover_letter_draft = '''' \<rparr>"

definition initial_world :: world where
  "initial_world = \<lparr> data = initial_data, ai_loading = None, generated_html = '''',
     theme = ''light'', requests = [], ui_log = [], sleeps = [] \<rparr>"

definition SECTION_ORDER :: "string list" where
  "SECTION_ORDER = [''summary'', ''skills'', ''portfolio'', ''experience'', ''education'']"

section \<open>The generation client\<close>

definition MODEL :: string where
  "MODEL = ''gemini-2.5-flash''"

definition MAX_RETRIES :: nat where
  "MAX_RETRIES = 5"

text \<open>
  What one call of \<open>client.models.generate_content\<close> does inside the \<open>try\<close>: it
  returns a response whose \<open>text\<close> is a string or \<open>None\<close>, raises an \<open>APIError\<close>
  (carried as \<open>str(e)\<close>), or raises another exception. A service gives the outcome of
  the attempt with a given index; \<open>get_gemini_client()\<close> is \<open>None\<close> when it failed.
\<close>

datatype outcome = Response "string option" | APIError string | OtherException string

type_synonym service = "nat \<Rightarrow> outcome"

definition none_strip_message :: string where
  "none_strip_message = ''An unexpected error occurred: 'NoneType' object has no attribute 'strip'' @ [CHR 0x27]"

text \<open>
  The loop \<open>for attempt in range(MAX_RETRIES)\<close>, entered at \<open>attempt\<close>. The result
  \<open>None\<close> is Python's implicit \<open>None\<close> when the range is exhausted without a
  \<open>return\<close>.
\<close>

function attempts :: "service \<Rightarrow> string \<Rightarrow> string \<Rightarrow> nat \<Rightarrow> world \<Rightarrow> string option \<times> world" where
  "attempts svc prompt system_instruction attempt w =
     (if attempt < MAX_RETRIES then
        (let w1 = w\<lparr>requests := requests w @ [(MODEL, prompt, system_instruction)]\<rparr>
         in case svc attempt of
              Response (Some text) \<Rightarrow> (Some (strip text), w1)
            | Response None \<Rightarrow>
                (Some ''Error: An unexpected error occurred during AI generation.'',
                 w1\<lparr>ui_log := ui_log w1 @ [ErrorMsg none_strip_message], ai_loading := None\<rparr>)
            | APIError e \<Rightarrow>
                (if contains ''429'' e \<and> attempt < MAX_RETRIES - 1 then
                   attempts svc prompt system_instruction (attempt + 1)
                     (w1\<lparr>ui_log := ui_log w1 @
                            [Warning (''Rate limit hit. Retrying in '' @ str_nat (2 ^ attempt) @ '' seconds...'')],
                         sleeps := sleeps w1 @ [2 ^ attempt + 1]\<rparr>)
                 else
                   (Some ''Error: Could not connect to AI service or API key is invalid.'',
                    w1\<lparr>ui_log := ui_log w1 @ [ErrorMsg (''Gemini API Call Failed: '' @ e)],
                        ai_loading := None\<rparr>))
            | OtherException e \<Rightarrow>
                (Some ''Error: An unexpected error occurred during AI generation.'',
                 w1\<lparr>ui_log := ui_log w1 @ [ErrorMsg (''An unexpected error occurred: '' @ e)],
                     ai_loading := None\<rparr>))
      else (None, w))"
  by pat_completeness auto
termination
  by (relation "measure (\<lambda>(svc, prompt, system_instruction, attempt, w). MAX_RETRIES - attempt)") auto

declare attempts.simps [simp del]

definition generate_content_with_ai ::
  "service option \<Rightarrow> string \<Rightarrow> string \<Rightarrow> world \<Rightarrow> string option \<times> world" where
  "generate_content_with_ai client prompt system_instruction w =
     (case client of
        None \<Rightarrow> (Some ''Error: Gemini client not initialized. Check API Key configuration.'', w)
      | Some svc \<Rightarrow> attempts svc prompt system_instruction 0 w)"

section \<open>The handlers of the generation use cases\<close>

text \<open>
  What a handler can raise: \<open>UnboundLocalError\<close> when \<open>item\<close> was never bound,
  \<open>KeyError\<close> and \<open>IndexError\<close> from the list operations of the form, and
  \<open>NoneResult\<close> for a handler that receives Python's \<open>None\<close> from the client.
\<close>

datatype error = UnboundLocalError | NoneResult | KeyError | IndexError

definition summary_system_instruction :: string where
  \<open>summary_system_instruction = ''You are a world-class resume writer. Generate a concise, 3-4 sentence professional summary based on the provided experience and education. Use strong action verbs and highlight key skills (AI, Cloud, Python, Web Dev). Do not include any introductory phrases, just the summary text.''\<close>

definition summary_prompt :: "document \<Rightarrow> string" where
  "summary_prompt d =
     (let education_text = join ''; '' (map (\<lambda>e. degree e @ '' from '' @ institution e) (education d));
          experience_text = join ''; ''
            (map (\<lambda>e. title e @ '' at '' @ company e @ ''. Key points: '' @ bullets e) (experience d))
      in ''Generate a summary for the following: \<newline>\<newline>Education: '' @ education_text @
         ''\<newline>\<newline>Experience: '' @ experience_text)"

definition handle_generate_summary :: "service option \<Rightarrow> world \<Rightarrow> error + world" where
  "handle_generate_summary client w =
     (let w1 = w\<lparr>ai_loading := Some (Key ''summary'')\<rparr>;
          user_prompt = summary_prompt (data w1)
      in case generate_content_with_ai client user_prompt summary_system_instruction w1 of
           (None, w2) \<Rightarrow> Inl NoneResult
         | (Some result, w2) \<Rightarrow>
             Inr (w2\<lparr>data := (data w2)\<lparr>summary := result\<rparr>, ai_loading := None\<rparr>))"

definition skills_system_instruction :: string where
  \<open>skills_system_instruction = ''You are an AI career coach. Based on the user'' @ [CHR 0x27] @ ''s current skills and their AI/Cloud internship focus, suggest 5-8 additional, relevant, high-demand skills that they should include. Provide the new skills as a comma-separated list ONLY, with no introductory text or numbering. Examples: Kubernetes, DevOps, PostgreSQL, Agile Methodology.''\<close>

definition skills_prompt :: "document \<Rightarrow> string" where
  "skills_prompt d =
     (let current_skills = join '', '' (skills d)
      in ''Current Skills: '' @ current_skills @ ''\<newline>Focus: AI and Cloud Intern'')"

text \<open>\<open>[s.strip() for s in result.split(',') if s.strip()]\<close>\<close>

definition parse_skills :: "string \<Rightarrow> string list" where
  "parse_skills result = map strip (filter (\<lambda>s. strip s \<noteq> []) (split (CHR '','') result))"

text \<open>
  \<open>list(set(a) | set(b))\<close> lists the union in the order of Python's hash table, which
  the source does not fix. The listing is the parameter \<open>list_of_union\<close> of the handler;
  \<open>set_listing\<close> says of it what every listing of a Python set satisfies.
\<close>

definition set_listing :: "(string list \<Rightarrow> string list \<Rightarrow> string list) \<Rightarrow> bool" where
  "set_listing list_of_union =
     (\<forall>a b. distinct (list_of_union a b) \<and> set (list_of_union a b) = set a \<union> set b)"

definition handle_suggest_skills ::
  "(string list \<Rightarrow> string list \<Rightarrow> string list) \<Rightarrow> service option \<Rightarrow> world \<Rightarrow> error + world" where
  "handle_suggest_skills list_of_union client w =
     (let w1 = w\<lparr>ai_loading := Some (Key ''skills'')\<rparr>;
          user_prompt = skills_prompt (data w1)
      in case generate_content_with_ai client user_prompt skills_system_instruction w1 of
           (None, w2) \<Rightarrow> Inl NoneResult
         | (Some result, w2) \<Rightarrow>
             Inr ((if \<not> startswith result ''Error'' then
                     (let new_skills = parse_skills result;
                          merged_skills = list_of_union (skills (data w2)) new_skills
                      in w2\<lparr>data := (data w2)\<lparr>skills := merged_skills\<rparr>\<rparr>)
                   else w2)\<lparr>ai_loading := None\<rparr>))"

definition experience_system_instruction :: string where
  \<open>experience_system_instruction = ''You are an expert resume optimizer. Rewrite the following raw achievement points into 3-5 professional, high-impact bullet points. Each point must start with a strong action verb and include quantifiable results where possible. Return only the bullet points, each separated by a newline.''\<close>

definition portfolio_system_instruction :: string where
  \<open>portfolio_system_instruction = ''You are a professional portfolio project describer. Write a concise, one-sentence description for a technical portfolio project. Focus on the tools used, the problem solved, and the impact. Return only the single sentence description.''\<close>

text \<open>
  \<open>item\<close> as the handler reads it: the title and the raw text of the first entry with
  the given id. The outer \<open>None\<close> is the unbound name (a section that is neither
  \<open>'experience'\<close> nor \<open>'portfolio'\<close>), the inner one is \<open>next(..., None)\<close>.
\<close>

definition find_item :: "entry_id \<Rightarrow> string \<Rightarrow> document \<Rightarrow> (string \<times> string) option option" where
  "find_item i section d =
     (if section = ''experience'' then
        Some (map_option (\<lambda>exp. (title exp, bullets exp)) (find (\<lambda>exp. exp_id exp = i) (experience d)))
      else if section = ''portfolio'' then
        Some (map_option (\<lambda>proj. (proj_name proj, description proj)) (find (\<lambda>proj. proj_id proj = i) (portfolio d)))
      else None)"

definition no_raw_input :: "world \<Rightarrow> world" where
  "no_raw_input w = w\<lparr>ui_log := ui_log w @ [Warning ''No raw input to refine.''], ai_loading := None\<rparr>"

definition refine_request :: "string \<Rightarrow> string \<Rightarrow> string \<Rightarrow> string \<times> string" where
  "refine_request section item_title item_text =
     (if section = ''experience'' then
        (experience_system_instruction,
         ''Title: '' @ item_title @ ''\<newline>Raw Points:\<newline>'' @ item_text)
      else
        (portfolio_system_instruction,
         ''Project Name: '' @ item_title @ ''\<newline>Existing Description (if any): '' @ item_text))"

definition merge_refined :: "entry_id \<Rightarrow> string \<Rightarrow> string \<Rightarrow> document \<Rightarrow> document" where
  "merge_refined i section result d =
     (if section = ''experience'' then
        d\<lparr>experience := map (\<lambda>exp. if exp_id exp = i then exp\<lparr>bullets := result\<rparr> else exp) (experience d)\<rparr>
      else
        d\<lparr>portfolio := map (\<lambda>proj. if proj_id proj = i then proj\<lparr>description := result\<rparr> else proj) (portfolio d)\<rparr>)"

definition handle_refine_bullets :: "service option \<Rightarrow> entry_id \<Rightarrow> string \<Rightarrow> world \<Rightarrow> error + world" where
  "handle_refine_bullets client i section w =
     (let w1 = w\<lparr>ai_loading := Some (Id i)\<rparr>
      in case find_item i section (data w1) of
           None \<Rightarrow> Inl UnboundLocalError
         | Some None \<Rightarrow> Inr (no_raw_input w1)
         | Some (Some (item_title, item_text)) \<Rightarrow>
             (if item_text = [] then Inr (no_raw_input w1)
              else
                (let (system_instruction, user_prompt) = refine_request section item_title item_text
                 in case generate_content_with_ai client user_prompt system_instruction w1 of
                      (None, w2) \<Rightarrow> Inl NoneResult
                    | (Some result, w2) \<Rightarrow>
                        Inr ((if \<not> startswith result ''Error''
                              then w2\<lparr>data := merge_refined i section result (data w2)\<rparr>
                              else w2)\<lparr>ai_loading := None\<rparr>))))"

definition cover_letter_system_instruction :: string where
  \<open>cover_letter_system_instruction = ''You are a highly skilled professional cover letter writer. Draft a formal, three-paragraph cover letter using the provided resume data, tailored for the specific job title and company. The tone must be professional and enthusiastic, highlighting how the candidate'' @ [CHR 0x27] @ ''s experience (especially AI/Cloud) directly benefits the target company. Use proper salutations.''\<close>

definition cover_letter_prompt :: "document \<Rightarrow> string" where
  "cover_letter_prompt d =
     (let inputs = cover_letter_inputs d;
          experience_text = join ''\<newline>- ''
            (map (\<lambda>e. title e @ '' at '' @ company e @ '' ('' @ exp_dates e @ ''): '' @ bullets e) (experience d))
      in ''Draft a cover letter for the following job application:\<newline>'' @
         ''\<newline>'' @
         ''Target Company: '' @ cl_company inputs @ ''\<newline>'' @
         ''Target Job Title: '' @ cl_title inputs @ ''\<newline>'' @
         ''Candidate Name: '' @ name (personal d) @ ''\<newline>'' @
         ''Candidate Email: '' @ email (personal d) @ ''\<newline>'' @
         ''Candidate LinkedIn: '' @ linkedin (personal d) @ ''\<newline>'' @
         ''Candidate Professional Summary: '' @ summary d @ ''\<newline>'' @
         ''Candidate Relevant Experience (Key Points): \<newline>'' @
         ''- '' @ experience_text @ ''\<newline>'')"

definition validation_message :: string where
  "validation_message = ''Error: Please enter both Target Company and Job Title.''"

definition handle_generate_cover_letter :: "service option \<Rightarrow> world \<Rightarrow> error + world" where
  "handle_generate_cover_letter client w =
     (let w1 = w\<lparr>ai_loading := Some (Key ''cover-letter'')\<rparr>;
          inputs = cover_letter_inputs (data w1)
      in if cl_company inputs = [] \<or> cl_title inputs = [] then
           Inr (w1\<lparr>data := (data w1)\<lparr>cover_letter_draft := validation_message\<rparr>, ai_loading := None\<rparr>)
         else
           (let user_prompt = cover_letter_prompt (data w1);
                w2 = w1\<lparr>data := (data w1)\<lparr>cover_letter_draft := ''Generating professional cover letter draft...''\<rparr>\<rparr>
            in case generate_content_with_ai client user_prompt cover_letter_system_instruction w2 of
                 (None, w3) \<Rightarrow> Inl NoneResult
               | (Some result, w3) \<Rightarrow>
                   Inr ((if \<not> startswith result ''Error''
                         then w3\<lparr>data := (data w3)\<lparr>cover_letter_draft := result\<rparr>\<rparr>
                         else w3)\<lparr>ai_loading := None\<rparr>)))"

section \<open>Adding and removing entries (\<open>render_array_section\<close>)\<close>

text \<open>
  The two buttons of \<open>render_array_section\<close> that change a sequence, for the three
  sections \<open>main\<close> renders. \<open>now\<close> is the value \<open>time.time()\<close> returns at the click.
\<close>

definition add_new :: "string \<Rightarrow> real \<Rightarrow> world \<Rightarrow> error + world" where
  "add_new section_key now w =
     (let d = data w
      in if section_key = ''education'' then
           Inr (w\<lparr>data := d\<lparr>education := education d @
                  [\<lparr>edu_id = now, institution = '''', degree = '''', edu_dates = ''''\<rparr>]\<rparr>\<rparr>)
         else if section_key = ''experience'' then
           Inr (w\<lparr>data := d\<lparr>experience := experience d @
                  [\<lparr>exp_id = now, title = '''', company = '''', exp_dates = '''', bullets = ''''\<rparr>]\<rparr>\<rparr>)
         else if section_key = ''portfolio'' then
           Inr (w\<lparr>data := d\<lparr>portfolio := portfolio d @
                  [\<lparr>proj_id = now, proj_name = '''', link = '''', description = ''''\<rparr>]\<rparr>\<rparr>)
         else Inl KeyError)"

text \<open>\<open>xs.pop(i)\<close> for \<open>i \<ge> 0\<close>: the list without its element at index \<open>i\<close>.\<close>

definition pop :: "nat \<Rightarrow> 'a list \<Rightarrow> error + 'a list" where
  "pop i xs = (if i < length xs then Inr (take i xs @ drop (Suc i) xs) else Inl IndexError)"

definition remove_entry :: "string \<Rightarrow> nat \<Rightarrow> world \<Rightarrow> error + world" where
  "remove_entry section_key i w =
     (let d = data w
      in if section_key = ''education'' then
           (case pop i (education d) of Inl e \<Rightarrow> Inl e
            | Inr xs \<Rightarrow> Inr (w\<lparr>data := d\<lparr>education := xs\<rparr>\<rparr>))
         else if section_key = ''experience'' then
           (case pop i (experience d) of Inl e \<Rightarrow> Inl e
            | Inr xs \<Rightarrow> Inr (w\<lparr>data := d\<lparr>experience := xs\<rparr>\<rparr>))
         else if section_key = ''portfolio'' then
           (case pop i (portfolio d) of Inl e \<Rightarrow> Inl e
            | Inr xs \<Rightarrow> Inr (w\<lparr>data := d\<lparr>portfolio := xs\<rparr>\<rparr>))
         else Inl KeyError)"

datatype ui_action = AddNew string real | Remove string nat

fun act :: "ui_action \<Rightarrow> world \<Rightarrow> error + world" where
  "act (AddNew section_key now) w = add_new section_key now w"
| "act (Remove section_key i) w = remove_entry section_key i w"

text \<open>A sequence of clicks, each followed by a rerun; an exception ends the run.\<close>

fun run :: "ui_action list \<Rightarrow> world \<Rightarrow> error + world" where
  "run [] w = Inr w"
| "run (a # as) w = (case act a w of Inl e \<Rightarrow> Inl e | Inr w' \<Rightarrow> run as w')"

section \<open>The three compilations\<close>

subsection \<open>Plain-text resume (\<open>compile_resume_text\<close>)\<close>

definition header_lines :: "document \<Rightarrow> string list" where
  "header_lines d =
     (let p = personal d
      in [upper (name p),
          replicate (length (name p)) (CHR ''=''),
          ''Email: '' @ email p,
          ''Phone: '' @ phone p,
          ''LinkedIn: '' @ linkedin p,
          replicate 2 newline])"

text \<open>The lines one iteration of \<open>for key in SECTION_ORDER\<close> appends.\<close>

definition section_lines :: "document \<Rightarrow> string \<Rightarrow> string list" where
  "section_lines d key =
     (if key = ''summary'' then
        [''PROFESSIONAL SUMMARY'', replicate 20 (CHR ''-''), summary d, [newline]]
      else if key = ''skills'' then
        [''SKILLS'', replicate 6 (CHR ''-''),
         ''Technical Skills: '' @ join '', '' (skills d), [newline]]
      else if key = ''portfolio'' then
        [''PROJECTS'', replicate 8 (CHR ''-'')] @
        concat (map (\<lambda>proj. [proj_name proj @ '' ('' @ link proj @ '')'',
                              ''  - '' @ description proj]) (portfolio d)) @
        [[newline]]
      else if key = ''experience'' then
        [''EXPERIENCE'', replicate 10 (CHR ''-'')] @
        concat (map (\<lambda>exp. [title exp @ '', '' @ company exp, ''  Dates: '' @ exp_dates exp] @
                             map (\<lambda>bullet. ''  - '' @ strip bullet)
                               (filter (\<lambda>bullet. strip bullet \<noteq> []) (split newline (bullets exp))))
                     (experience d)) @
        [[newline]]
      else if key = ''education'' then
        [''EDUCATION'', replicate 9 (CHR ''-'')] @
        concat (map (\<lambda>edu. [degree edu @ '', '' @ institution edu,
                             ''  Dates: '' @ edu_dates edu]) (education d)) @
        [[newline]]
      else [])"

definition resume_lines :: "document \<Rightarrow> string list" where
  "resume_lines d = foldl (\<lambda>lines key. lines @ section_lines d key) (header_lines d) SECTION_ORDER"

definition compile_resume_text :: "document \<Rightarrow> string" where
  "compile_resume_text d = strip (join [newline] (resume_lines d))"

subsection \<open>Portfolio site (\<open>generate_portfolio_html\<close>)\<close>

definition skill_badge :: "string \<Rightarrow> string" where
  \<open>skill_badge skill =
     ''<span class="px-4 py-2 bg-gray-700 text-blue-300 rounded-full text-sm font-medium shadow-md">'' @ skill @ ''</span>''\<close>

definition project_card :: "portfolio_entry \<Rightarrow> string" where
  \<open>project_card proj =
     ''\<newline>'' @
     ''                    <div class="p-6 bg-[#161b22] border border-gray-700 rounded-xl">\<newline>'' @
     ''                        <h3 class="text-xl font-semibold text-blue-400 mb-2">'' @ proj_name proj @ ''</h3>\<newline>'' @
     ''                        <p class="text-gray-400 text-sm mb-4">'' @ description proj @ ''</p>\<newline>'' @
     ''                        <a href="'' @ link proj @ ''" target="_blank" class="inline-block text-sm font-medium text-blue-500 hover:text-blue-400 transition duration-200 flex items-center">\<newline>'' @
     ''                            View Project\<newline>'' @
     ''                            <span class="ml-1">'' @ [CHR 0xE2, CHR 0x86, CHR 0x92] @ ''</span>\<newline>'' @
     ''                        </a>\<newline>'' @
     ''                    </div>\<newline>'' @
     ''                ''\<close>

definition education_card :: "education_entry \<Rightarrow> string" where
  \<open>education_card edu =
     ''\<newline>'' @
     ''                    <div class="p-4 bg-[#161b22] border border-gray-700 rounded-lg">\<newline>'' @
     ''                        <div class="flex justify-between items-center mb-1">\<newline>'' @
     ''                            <h3 class="text-lg font-semibold text-gray-200">'' @ degree edu @ ''</h3>\<newline>'' @
     ''                            <span class="text-sm text-gray-500">'' @ edu_dates edu @ ''</span>\<newline>'' @
     ''                        </div>\<newline>'' @
     ''                        <p class="text-md text-gray-400">'' @ institution edu @ ''</p>\<newline>'' @
     ''                    </div>\<newline>'' @
     ''                ''\<close>

definition portfolio_html :: "document \<Rightarrow> string" where
  \<open>portfolio_html d =
     ''<!DOCTYPE html>\<newline>'' @
     ''<html lang="en">\<newline>'' @
     ''<head>\<newline>'' @
     ''    <meta charset="UTF-8">\<newline>'' @
     ''    <meta name="viewport" content="width=device-width, initial-scale=1.0">\<newline>'' @
     ''    <title>'' @ (if name (personal d) \<noteq> [] then name (personal d) else ''Student'') @ '' Projects Portfolio</title>\<newline>'' @
     ''    <script src="https://cdn.tailwindcss.com"></script>\<newline>'' @
     ''    <link href="https://fonts.googleapis.com/css2?family=Inter:wght@100..900&display=swap" rel="stylesheet">\<newline>'' @
     ''    <style>\<newline>'' @
     ''        body {\<newline>'' @
     ''            font-family: '' @ [CHR 0x27] @ ''Inter'' @ [CHR 0x27] @ '', sans-serif;\<newline>'' @
     ''            background-color: #0d1117; /* Dark background */\<newline>'' @
     ''        }\<newline>'' @
     ''        .section-title {\<newline>'' @
     ''            position: relative;\<newline>'' @
     ''            padding-bottom: 0.5rem;\<newline>'' @
     ''            margin-bottom: 1.5rem;\<newline>'' @
     ''        }\<newline>'' @
     ''        .section-title::after {\<newline>'' @
     ''            content: '' @ [CHR 0x27, CHR 0x27] @ '';\<newline>'' @
     ''            position: absolute;\<newline>'' @
     ''            left: 0;\<newline>'' @
     ''            bottom: 0;\<newline>'' @
     ''            height: 3px;\<newline>'' @
     ''            width: 50px;\<newline>'' @
     ''            background-color: #2563eb; /* Blue accent */\<newline>'' @
     ''            border-radius: 9999px;\<newline>'' @
     ''        }\<newline>'' @
     ''    </style>\<newline>'' @
     ''</head>\<newline>'' @
     ''<body class="text-gray-200">\<newline>'' @
     ''    <div id="app" class="max-w-4xl mx-auto p-4 sm:p-8 space-y-12">\<newline>'' @
     ''        <header id="header" class="text-center p-6 bg-[#161b22] rounded-xl shadow-2xl">\<newline>'' @
     ''            <h1 class="text-5xl font-extrabold text-blue-400 mb-2">'' @ name (personal d) @ ''</h1>\<newline>'' @
     ''            <p class="text-xl text-gray-400 mb-4">Aspiring AI & Cloud Developer</p>\<newline>'' @
     ''            <div class="flex flex-wrap justify-center space-x-4 text-sm">\<newline>'' @
     ''                <a href="mailto:'' @ email (personal d) @ ''" class="text-blue-400 hover:text-blue-300 transition duration-200">'' @ [CHR 0xF0, CHR 0x9F, CHR 0x93, CHR 0xA7] @ '' '' @ email (personal d) @ ''</a>\<newline>'' @
     ''                <a href="'' @ linkedin (personal d) @ ''" target="_blank" class="text-blue-400 hover:text-blue-300 transition duration-200">'' @ [CHR 0xF0, CHR 0x9F, CHR 0x94, CHR 0x97] @ '' LinkedIn</a>\<newline>'' @
     ''            </div>\<newline>'' @
     ''        </header>\<newline>'' @
     ''\<newline>'' @
     ''        <section id="about">\<newline>'' @
     ''            <h2 class="text-3xl font-bold text-gray-100 section-title">About Me</h2>\<newline>'' @
     ''            <p class="text-lg leading-relaxed text-gray-400">'' @ summary d @ ''</p>\<newline>'' @
     ''        </section>\<newline>'' @
     ''\<newline>'' @
     ''        <section id="skills">\<newline>'' @
     ''            <h2 class="text-3xl font-bold text-gray-100 section-title">Core Skills</h2>\<newline>'' @
     ''            <div class="flex flex-wrap gap-3">\<newline>'' @
     ''                '' @ concat (map skill_badge (skills d)) @ ''\<newline>'' @
     ''            </div>\<newline>'' @
     ''        </section>\<newline>'' @
     ''\<newline>'' @
     ''        <section id="projects">\<newline>'' @
     ''            <h2 class="text-3xl font-bold text-gray-100 section-title">Projects</h2>\<newline>'' @
     ''            <div class="grid grid-cols-1 md:grid-cols-2 gap-6">\<newline>'' @
     ''                '' @ concat (map project_card (portfolio d)) @ ''\<newline>'' @
     ''            </div>\<newline>'' @
     ''        </section>\<newline>'' @
     ''        \<newline>'' @
     ''        <section id="education">\<newline>'' @
     ''            <h2 class="text-3xl font-bold text-gray-100 section-title">Education</h2>\<newline>'' @
     ''            <div class="space-y-4">\<newline>'' @
     ''                '' @ concat (map education_card (education d)) @ ''\<newline>'' @
     ''            </div>\<newline>'' @
     ''        </section>\<newline>'' @
     ''\<newline>'' @
     ''        <footer class="text-center text-sm text-gray-500 pt-6 border-t border-gray-700">\<newline>'' @
     ''            <p>&copy; 2025 '' @ name (personal d) @ ''. Built with Insta Repo.</p>\<newline>'' @
     ''        </footer>\<newline>'' @
     ''    </div>\<newline>'' @
     ''</body>\<newline>'' @
     ''</html>''\<close>

definition generate_portfolio_html :: "world \<Rightarrow> world" where
  "generate_portfolio_html w = w\<lparr>generated_html := portfolio_html (data w)\<rparr>"

subsection \<open>Preview (\<open>render_preview\<close>)\<close>

definition BG_COLOR :: "string \<Rightarrow> string" where
  "BG_COLOR th = (if th = ''dark'' then ''#1f2937'' else ''#ffffff'')"

definition TEXT_COLOR :: "string \<Rightarrow> string" where
  "TEXT_COLOR th = (if th = ''dark'' then ''#f3f4f6'' else ''#1f2937'')"

definition ACCENT_COLOR :: "string \<Rightarrow> string" where
  "ACCENT_COLOR th = (if th = ''dark'' then ''#60a5fa'' else ''#1e40af'')"

definition SUB_TEXT_COLOR :: "string \<Rightarrow> string" where
  "SUB_TEXT_COLOR th = (if th = ''dark'' then ''#9ca3af'' else ''#6b7280'')"

definition BORDER_COLOR :: "string \<Rightarrow> string" where
  "BORDER_COLOR th = (if th = ''dark'' then ''#374151'' else ''#e5e7eb'')"

definition section_heading :: "string \<Rightarrow> string \<Rightarrow> string" where
  \<open>section_heading th label =
       ''<h3 style="border-bottom: 2px solid '' @ ACCENT_COLOR th @ ''; padding-bottom: 5px; margin-bottom: 10px; color: '' @ ACCENT_COLOR th @ ''; font-size: 16px;">'' @ label @ ''</h3>''\<close>

definition preview_project :: "string \<Rightarrow> portfolio_entry \<Rightarrow> string" where
  \<open>preview_project th proj =
       ''\<newline>'' @
       ''                    <div style="margin-bottom: 10px;">\<newline>'' @
       ''                        <a href="'' @ link proj @ ''" target="_blank" style="font-weight: bold; color: '' @ ACCENT_COLOR th @ ''; text-decoration: none;">'' @ proj_name proj @ ''</a>\<newline>'' @
       ''                        <p style="font-size: 12px; color: '' @ SUB_TEXT_COLOR th @ '';">'' @ link proj @ ''</p>\<newline>'' @
       ''                        <p style="font-size: 14px; color: '' @ TEXT_COLOR th @ '';">'' @ description proj @ ''</p>\<newline>'' @
       ''                    </div>\<newline>'' @
       ''                    ''\<close>

definition bullet_list_items :: "experience_entry \<Rightarrow> string" where
  \<open>bullet_list_items entry =
     concat (map (\<lambda>bullet. ''<li>'' @ strip bullet @ ''</li>'')
       (filter (\<lambda>bullet. strip bullet \<noteq> []) (split newline (bullets entry))))\<close>

definition preview_experience :: "string \<Rightarrow> experience_entry \<Rightarrow> string" where
  \<open>preview_experience th entry =
       ''\<newline>'' @
       ''                <div style="margin-bottom: 15px;">\<newline>'' @
       ''                    <div style="display: flex; justify-content: space-between;">\<newline>'' @
       ''                        <span style="font-weight: bold; color: '' @ TEXT_COLOR th @ '';">'' @ title entry @ ''</span>\<newline>'' @
       ''                        <span style="font-size: 12px; color: '' @ SUB_TEXT_COLOR th @ '';">'' @ exp_dates entry @ ''</span>\<newline>'' @
       ''                    </div>\<newline>'' @
       ''                    <p style="font-size: 14px; font-style: italic; color: '' @ SUB_TEXT_COLOR th @ '';">'' @ company entry @ ''</p>\<newline>'' @
       ''                    <ul style="margin-left: 20px; list-style-type: disc; font-size: 14px; color: '' @ TEXT_COLOR th @ '';">\<newline>'' @
       ''                        '' @ bullet_list_items entry @ ''\<newline>'' @
       ''                    </ul>\<newline>'' @
       ''                </div>\<newline>'' @
       ''                ''\<close>

definition preview_education :: "string \<Rightarrow> education_entry \<Rightarrow> string" where
  \<open>preview_education th edu =
       ''\<newline>'' @
       ''                <div style="margin-bottom: 10px;">\<newline>'' @
       ''                    <div style="display: flex; justify-content: space-between;">\<newline>'' @
       ''                        <span style="font-weight: bold; color: '' @ TEXT_COLOR th @ '';">'' @ degree edu @ ''</span>\<newline>'' @
       ''                        <span style="font-size: 12px; color: '' @ SUB_TEXT_COLOR th @ '';">'' @ edu_dates edu @ ''</span>\<newline>'' @
       ''                    </div>\<newline>'' @
       ''                    <p style="font-size: 14px; font-style: italic; color: '' @ SUB_TEXT_COLOR th @ '';">'' @ institution edu @ ''</p>\<newline>'' @
       ''                </div>\<newline>'' @
       ''                ''\<close>

definition format_resume_section :: "string \<Rightarrow> string \<Rightarrow> document \<Rightarrow> string" where
  \<open>format_resume_section th key d =
     ''<div style="margin-bottom: 20px; background-color: '' @ BG_COLOR th @ ''; color: '' @ TEXT_COLOR th @ ''; padding: 10px; border: 1px solid '' @ BORDER_COLOR th @ '';">'' @
     (if key = ''summary'' then
        section_heading th ''PROFESSIONAL SUMMARY'' @
        ''<p style="font-size: 14px; line-height: 1.5; color: '' @ TEXT_COLOR th @ '';">'' @ summary d @ ''</p>''
      else if key = ''skills'' then
        section_heading th ''SKILLS'' @
        ''<p style="font-size: 14px; color: '' @ TEXT_COLOR th @ '';"><b>Technical Skills:</b> '' @ join '', '' (skills d) @ ''</p>''
      else if key = ''portfolio'' then
        section_heading th ''PROJECTS'' @ concat (map (preview_project th) (portfolio d))
      else if key = ''experience'' then
        section_heading th ''EXPERIENCE'' @ concat (map (preview_experience th) (experience d))
      else if key = ''education'' then
        section_heading th ''EDUCATION'' @ concat (map (preview_education th) (education d))
      else []) @
     ''</div>''\<close>

definition header_html :: "string \<Rightarrow> document \<Rightarrow> string" where
  \<open>header_html th d =
       ''\<newline>'' @
       ''    <div style="text-align: center; border-bottom: 4px solid '' @ ACCENT_COLOR th @ ''; padding-bottom: 15px; margin-bottom: 20px; background-color: '' @ BG_COLOR th @ ''; color: '' @ TEXT_COLOR th @ '';">\<newline>'' @
       ''        <h1 style="font-size: 32px; font-weight: 800; margin-bottom: 5px;">\<newline>'' @
       ''            <a href="'' @ linkedin (personal d) @ ''" target="_blank" style="color: '' @ ACCENT_COLOR th @ ''; text-decoration: none;">'' @ name (personal d) @ ''</a>\<newline>'' @
       ''        </h1>\<newline>'' @
       ''        <p style="font-size: 14px; color: '' @ SUB_TEXT_COLOR th @ '';">\<newline>'' @
       ''            '' @ email (personal d) @ '' | '' @ phone (personal d) @ '' | \<newline>'' @
       ''            <a href="'' @ linkedin (personal d) @ ''" target="_blank" style="color: '' @ ACCENT_COLOR th @ ''; text-decoration: none;">LinkedIn</a>\<newline>'' @
       ''        </p>\<newline>'' @
       ''    </div>\<newline>'' @
       ''    ''\<close>

text \<open>The arguments of the calls of \<open>st.markdown\<close> that \<open>render_preview\<close> makes, in order.\<close>

definition preview_markup :: "world \<Rightarrow> string list" where
  "preview_markup w =
     header_html (theme w) (data w) #
     map (\<lambda>section_key. format_resume_section (theme w) section_key (data w)) SECTION_ORDER"

definition render_preview :: "world \<Rightarrow> world" where
  "render_preview w = w\<lparr>ui_log := ui_log w @ map Markdown (preview_markup w)\<rparr>"

section \<open>Notions used in the statements\<close>

text \<open>
  An outcome is rate-limited when it is an \<open>APIError\<close> whose text contains \<open>429\<close>:
  the one failure the client retries.
\<close>

definition rate_limited :: "outcome \<Rightarrow> bool" where
  "rate_limited out = (case out of APIError e \<Rightarrow> contains ''429'' e | _ \<Rightarrow> False)"

definition attempts_made :: "world \<Rightarrow> world \<Rightarrow> nat" where
  "attempts_made w w' = length (requests w') - length (requests w)"

definition retried :: "string \<Rightarrow> string \<Rightarrow> nat \<Rightarrow> nat \<Rightarrow> world \<Rightarrow> world" where
  "retried prompt si a n w =
     w\<lparr>requests := requests w @ replicate n (MODEL, prompt, si),
       ui_log := ui_log w @
         map (\<lambda>k. Warning (''Rate limit hit. Retrying in '' @ str_nat (2 ^ k) @ '' seconds...'')) [a..<a + n],
       sleeps := sleeps w @ map (\<lambda>k. 2 ^ k + 1) [a..<a + n]\<rparr>"

definition final_attempt :: "outcome \<Rightarrow> string \<Rightarrow> string \<Rightarrow> world \<Rightarrow> string option \<times> world" where
  "final_attempt out prompt si w =
     (let w1 = w\<lparr>requests := requests w @ [(MODEL, prompt, si)]\<rparr>
      in case out of
           Response (Some text) \<Rightarrow> (Some (strip text), w1)
         | Response None \<Rightarrow>
             (Some ''Error: An unexpected error occurred during AI generation.'',
              w1\<lparr>ui_log := ui_log w1 @ [ErrorMsg none_strip_message], ai_loading := None\<rparr>)
         | APIError e \<Rightarrow>
             (Some ''Error: Could not connect to AI service or API key is invalid.'',
              w1\<lparr>ui_log := ui_log w1 @ [ErrorMsg (''Gemini API Call Failed: '' @ e)],
                  ai_loading := None\<rparr>)
         | OtherException e \<Rightarrow>
             (Some ''Error: An unexpected error occurred during AI generation.'',
              w1\<lparr>ui_log := ui_log w1 @ [ErrorMsg (''An unexpected error occurred: '' @ e)],
                  ai_loading := None\<rparr>))"

text \<open>The clock readings of a sequence of clicks grow strictly, starting above \<open>b\<close>.\<close>

fun increasing_clock :: "real \<Rightarrow> ui_action list \<Rightarrow> bool" where
  "increasing_clock b [] = True"
| "increasing_clock b (AddNew section_key now # as) = (b < now \<and> increasing_clock now as)"
| "increasing_clock b (Remove section_key i # as) = increasing_clock b as"

text \<open>Every sequence has distinct ids, none above \<open>b\<close>.\<close>

definition ids_below :: "real \<Rightarrow> world \<Rightarrow> bool" where
  "ids_below b w =
     (distinct (map edu_id (education (data w))) \<and> list_all (\<lambda>x. edu_id x \<le> b) (education (data w)) \<and>
      distinct (map exp_id (experience (data w))) \<and> list_all (\<lambda>x. exp_id x \<le> b) (experience (data w)) \<and>
      distinct (map proj_id (portfolio (data w))) \<and> list_all (\<lambda>x. proj_id x \<le> b) (portfolio (data w)))"

text \<open>
  The texts of a document that each compilation shows: the fields as the text resume,
  the preview and the portfolio page print them. The text resume prints the name in
  upper case at its very beginning and the dates of the last education entry at its
  very end, where the final \<open>strip()\<close> removes white space; the portfolio page has
  neither phone, experience nor cover letter.
\<close>

definition bullet_lines :: "experience_entry \<Rightarrow> string list" where
  "bullet_lines entry =
     map strip (filter (\<lambda>bullet. strip bullet \<noteq> []) (split newline (bullets entry)))"

definition shown_in_text :: "document \<Rightarrow> string list" where
  "shown_in_text d =
     [lstrip (upper (name (personal d))), email (personal d), phone (personal d),
      linkedin (personal d), summary d, join '', '' (skills d)] @
     concat (map (\<lambda>proj. [proj_name proj, link proj, description proj]) (portfolio d)) @
     concat (map (\<lambda>entry. [title entry, company entry, exp_dates entry] @ bullet_lines entry)
               (experience d)) @
     concat (map (\<lambda>edu. [degree edu, institution edu, rstrip (edu_dates edu)]) (education d))"

definition shown_in_preview :: "document \<Rightarrow> string list" where
  "shown_in_preview d =
     [name (personal d), email (personal d), phone (personal d), linkedin (personal d),
      summary d, join '', '' (skills d)] @
     concat (map (\<lambda>proj. [link proj, proj_name proj, description proj]) (portfolio d)) @
     concat (map (\<lambda>entry. [title entry, exp_dates entry, company entry] @ bullet_lines entry)
               (experience d)) @
     concat (map (\<lambda>edu. [degree edu, edu_dates edu, institution edu]) (education d))"

definition theme_colours :: "string \<Rightarrow> string list" where
  "theme_colours th = [BG_COLOR th, TEXT_COLOR th, ACCENT_COLOR th, SUB_TEXT_COLOR th, BORDER_COLOR th]"

definition shown_in_portfolio :: "document \<Rightarrow> string list" where
  "shown_in_portfolio d =
     [name (personal d), email (personal d), linkedin (personal d), summary d] @
     skills d @
     concat (map (\<lambda>proj. [proj_name proj, description proj, link proj]) (portfolio d)) @
     concat (map (\<lambda>edu. [degree edu, edu_dates edu, institution edu]) (education d))"

section \<open>Example inputs\<close>

definition flaky :: service where
  "flaky k = (if k < 2 then APIError ''429 Too Many Requests'' else Response (Some '' Kubernetes, DevOps ''))"

definition throttled :: service where
  "throttled k = APIError ''429 RESOURCE_EXHAUSTED''"

definition forbidden :: service where
  "forbidden k = (if k < 1 then APIError ''429 Too Many Requests'' else APIError ''403 PERMISSION_DENIED'')"

definition quota_text :: service where
  "quota_text k = Response (Some ''Error 503: model overloaded'')"

definition applying :: world where
  "applying = initial_world\<lparr>data := initial_data\<lparr>
     cover_letter_inputs := \<lparr>cl_company = ''Acme'', cl_title = ''Engineer''\<rparr>,
     cover_letter_draft := ''Dear hiring manager''\<rparr>\<rparr>"

definition blank_entries :: world where
  "blank_entries = initial_world\<lparr>data := initial_data\<lparr>
     experience := [\<lparr>exp_id = 1, title = ''AI and Cloud Intern'', company = ''Edunet'',
                     exp_dates = ''2024'', bullets = ''Led a team''\<rparr>,
                    \<lparr>exp_id = 1730000000.5, title = '''', company = '''', exp_dates = '''', bullets = ''''\<rparr>],
     portfolio := [\<lparr>proj_id = 1, proj_name = ''Resume Builder'', link = '''', description = ''''\<rparr>]\<rparr>\<rparr>"

definition no_company :: world where
  "no_company = initial_world\<lparr>data := initial_data\<lparr>
     cover_letter_inputs := \<lparr>cl_company = '''', cl_title = ''Engineer''\<rparr>\<rparr>\<rparr>"

definition refined_text :: string where
  "refined_text = ''Built a resume tool used by 40 students.'' @ [newline]"

definition refiner :: service where
  "refiner k = Response (Some refined_text)"

definition jane :: document where
  "jane = initial_data\<lparr>
     personal := \<lparr>name = ''Jane Doe'', email = ''jane@example.com'', phone = ''555-0100'',
                  linkedin = ''https://linkedin.com/in/jane''\<rparr>,
     skills := [''Python'', ''SQL'']\<rparr>"

definition busy :: world where
  "busy = initial_world\<lparr>ai_loading := Some (Key ''summary''), generated_html := ''<html></html>'',
     requests := [(MODEL, ''p'', ''s'')], ui_log := [Warning ''No raw input to refine.''], sleeps := [2]\<rparr>"

section \<open>Properties of the generation client\<close>

lemma retried_0: "retried p si a 0 w = w"
  by (simp add: retried_def)

lemma retried_Suc: "retried p si (a + n) (Suc 0) (retried p si a n w) = retried p si a (Suc n) w"
  by (simp add: retried_def replicate_append_same)

lemma retried_fields [simp]:
  "data (retried p si a n w) = data w"
  "ai_loading (retried p si a n w) = ai_loading w"
  "generated_html (retried p si a n w) = generated_html w"
  "theme (retried p si a n w) = theme w"
  "requests (retried p si a n w) = requests w @ replicate n (MODEL, p, si)"
  "sleeps (retried p si a n w) = sleeps w @ map (\<lambda>k. 2 ^ k + 1) [a..<a + n]"
  by (simp_all add: retried_def)

lemma final_attempt_fields [simp]:
  "data (snd (final_attempt out p si w)) = data w"
  "generated_html (snd (final_attempt out p si w)) = generated_html w"
  "theme (snd (final_attempt out p si w)) = theme w"
  "requests (snd (final_attempt out p si w)) = requests w @ [(MODEL, p, si)]"
  "sleeps (snd (final_attempt out p si w)) = sleeps w"
  by (simp_all add: final_attempt_def Let_def split: outcome.splits option.splits)

lemma final_attempt_result:
  "fst (final_attempt out p si w) =
     Some (case out of
             Response (Some text) \<Rightarrow> strip text
           | Response None \<Rightarrow> ''Error: An unexpected error occurred during AI generation.''
           | APIError e \<Rightarrow> ''Error: Could not connect to AI service or API key is invalid.''
           | OtherException e \<Rightarrow> ''Error: An unexpected error occurred during AI generation.'')"
  by (simp add: final_attempt_def Let_def split: outcome.splits option.splits)

lemma attempts_retry:
  assumes "rate_limited (svc a)" "a < 4"
  shows "attempts svc p si a w = attempts svc p si (Suc a) (retried p si a (Suc 0) w)"
  using assms
  by (subst attempts.simps)
     (auto simp: rate_limited_def MAX_RETRIES_def retried_def Let_def split: outcome.splits)

lemma attempts_final:
  assumes "a < 5" "\<not> rate_limited (svc a) \<or> a = 4"
  shows "attempts svc p si a w = final_attempt (svc a) p si w"
  using assms
  by (subst attempts.simps)
     (auto simp: rate_limited_def MAX_RETRIES_def final_attempt_def Let_def
           split: outcome.splits option.splits)

lemma attempts_skip:
  "a + n \<le> 4 \<Longrightarrow> (\<forall>k<n. rate_limited (svc (a + k))) \<Longrightarrow>
   attempts svc p si a w = attempts svc p si (a + n) (retried p si a n w)"
proof (induction n)
  case 0
  then show ?case by (simp add: retried_0)
next
  case (Suc n)
  then have "attempts svc p si a w = attempts svc p si (a + n) (retried p si a n w)" by simp
  also have "\<dots> = attempts svc p si (Suc (a + n)) (retried p si (a + n) (Suc 0) (retried p si a n w))"
    using Suc.prems by (intro attempts_retry) auto
  finally show ?case by (simp add: retried_Suc)
qed

lemma attempts_closed:
  assumes "n < 5" "\<forall>k<n. rate_limited (svc k)" "\<not> rate_limited (svc n) \<or> n = 4"
  shows "attempts svc p si 0 w = final_attempt (svc n) p si (retried p si 0 n w)"
proof -
  have "attempts svc p si 0 w = attempts svc p si (0 + n) (retried p si 0 n w)"
    using assms by (intro attempts_skip) auto
  then show ?thesis using assms by (simp add: attempts_final)
qed

text \<open>The index of the attempt that ends the loop.\<close>

lemma last_attempt_exists:
  fixes svc :: service
  shows "\<exists>n<5. (\<forall>k<n. rate_limited (svc k)) \<and> (\<not> rate_limited (svc n) \<or> n = 4)"
proof (cases "\<exists>n<4. \<not> rate_limited (svc n)")
  case True
  define m where "m = (LEAST n. \<not> rate_limited (svc n))"
  from True obtain n0 where n0: "n0 < 4" "\<not> rate_limited (svc n0)" by blast
  have "\<not> rate_limited (svc m)"
    unfolding m_def using LeastI[of "\<lambda>n. \<not> rate_limited (svc n)" n0] n0(2) by simp
  moreover have "m \<le> n0"
    unfolding m_def using Least_le[of "\<lambda>n. \<not> rate_limited (svc n)" n0] n0(2) by simp
  moreover have "\<forall>k<m. rate_limited (svc k)"
    unfolding m_def using not_less_Least by blast
  ultimately show ?thesis using n0(1) by (intro exI[of _ m]) auto
next
  case False
  then show ?thesis by (intro exI[of _ 4]) auto
qed

lemma generate_cases:
  obtains (no_client) "client = None"
      "generate_content_with_ai client p si w =
         (Some ''Error: Gemini client not initialized. Check API Key configuration.'', w)"
  | (called) svc n where "client = Some svc" "n < 5" "\<forall>k<n. rate_limited (svc k)"
      "\<not> rate_limited (svc n) \<or> n = 4"
      "generate_content_with_ai client p si w = final_attempt (svc n) p si (retried p si 0 n w)"
proof (cases client)
  case None
  then show ?thesis by (intro no_client) (simp_all add: generate_content_with_ai_def)
next
  case (Some svc)
  obtain n where n: "n < 5" "\<forall>k<n. rate_limited (svc k)" "\<not> rate_limited (svc n) \<or> n = 4"
    using last_attempt_exists by blast
  show ?thesis
    using Some n by (intro called[of svc n]) (simp_all add: generate_content_with_ai_def attempts_closed)
qed

lemma generate_returns: "\<exists>r. fst (generate_content_with_ai client p si w) = Some r"
  by (cases client p si w rule: generate_cases) (simp_all add: final_attempt_result)

lemma generate_frame [simp]:
  "data (snd (generate_content_with_ai client p si w)) = data w"
  "generated_html (snd (generate_content_with_ai client p si w)) = generated_html w"
  "theme (snd (generate_content_with_ai client p si w)) = theme w"
  by (cases client p si w rule: generate_cases; simp)+

lemma generate_after_rate_limits:
  assumes "n < 5" "\<forall>k<n. rate_limited (svc k)" "\<not> rate_limited (svc n) \<or> n = 4"
  shows "generate_content_with_ai (Some svc) p si w = final_attempt (svc n) p si (retried p si 0 n w)"
  using assms by (simp add: generate_content_with_ai_def attempts_closed)

text \<open>
  Claim C2. One call of the client makes at most 5 attempts, whatever the service
  answers and whether or not a client exists. When the first \<open>N\<close> outcomes are
  rate-limited: a response at attempt \<open>N < 5\<close> is returned trimmed; any outcome at
  attempt \<open>N < 5\<close> that is not rate-limited ends the call there, after \<open>N + 1\<close>
  attempts and the waits \<open>2^k + 1\<close> of the \<open>N\<close> retries, and if it is a failure the
  result is an error string; for \<open>N \<ge> 5\<close> the call makes exactly 5 attempts, waits
  between them 2, 3, 5 and 9 seconds, returns the error string of a failed API call and
  shows the rate-limit error of the fifth attempt.
\<close>

theorem generation_client_retry_bound:
  "attempts_made w (snd (generate_content_with_ai client p si w)) \<le> 5 \<and>
   ((\<forall>k<N. rate_limited (svc k)) \<longrightarrow>
      (N < 5 \<longrightarrow> svc N = Response (Some t) \<longrightarrow>
         fst (generate_content_with_ai (Some svc) p si w) = Some (strip t)) \<and>
      (N < 5 \<longrightarrow> \<not> rate_limited (svc N) \<longrightarrow>
         attempts_made w (snd (generate_content_with_ai (Some svc) p si w)) = N + 1 \<and>
         sleeps (snd (generate_content_with_ai (Some svc) p si w)) =
           sleeps w @ map (\<lambda>k. 2 ^ k + 1) [0..<N]) \<and>
      (N < 5 \<longrightarrow> \<not> rate_limited (svc N) \<longrightarrow> (\<forall>t. svc N \<noteq> Response (Some t)) \<longrightarrow>
         (\<exists>r. fst (generate_content_with_ai (Some svc) p si w) = Some r \<and> startswith r ''Error'')) \<and>
      (5 \<le> N \<longrightarrow>
         fst (generate_content_with_ai (Some svc) p si w) =
           Some ''Error: Could not connect to AI service or API key is invalid.'' \<and>
         attempts_made w (snd (generate_content_with_ai (Some svc) p si w)) = 5 \<and>
         sleeps (snd (generate_content_with_ai (Some svc) p si w)) =
           sleeps w @ map (\<lambda>k. 2 ^ k + 1) [0..<4] \<and>
         (\<exists>e. svc 4 = APIError e \<and> contains ''429'' e \<and>
            last (ui_log (snd (generate_content_with_ai (Some svc) p si w))) =
              ErrorMsg (''Gemini API Call Failed: '' @ e))))"
proof -
  have bound: "attempts_made w (snd (generate_content_with_ai client p si w)) \<le> 5"
    by (cases client p si w rule: generate_cases) (simp_all add: attempts_made_def)
  have ok: "fst (generate_content_with_ai (Some svc) p si w) = Some (strip t)"
    if "\<forall>k<N. rate_limited (svc k)" "N < 5" "svc N = Response (Some t)"
  proof -
    have "\<not> rate_limited (svc N)" using that(3) by (simp add: rate_limited_def)
    then show ?thesis
      using that by (simp add: generate_after_rate_limits[of N] final_attempt_result)
  qed
  have stop: "attempts_made w (snd (generate_content_with_ai (Some svc) p si w)) = N + 1 \<and>
         sleeps (snd (generate_content_with_ai (Some svc) p si w)) =
           sleeps w @ map (\<lambda>k. 2 ^ k + 1) [0..<N]"
    if "\<forall>k<N. rate_limited (svc k)" "N < 5" "\<not> rate_limited (svc N)"
    using that by (simp add: generate_after_rate_limits[of N] attempts_made_def)
  have err: "\<exists>r. fst (generate_content_with_ai (Some svc) p si w) = Some r \<and> startswith r ''Error''"
    if "\<forall>k<N. rate_limited (svc k)" "N < 5" "\<not> rate_limited (svc N)" "\<forall>t. svc N \<noteq> Response (Some t)"
    using that
    by (simp add: generate_after_rate_limits[of N] final_attempt_result startswith_def
             split: outcome.splits option.splits)
  have exhausted: "fst (generate_content_with_ai (Some svc) p si w) =
           Some ''Error: Could not connect to AI service or API key is invalid.'' \<and>
         attempts_made w (snd (generate_content_with_ai (Some svc) p si w)) = 5 \<and>
         sleeps (snd (generate_content_with_ai (Some svc) p si w)) =
           sleeps w @ map (\<lambda>k. 2 ^ k + 1) [0..<4] \<and>
         (\<exists>e. svc 4 = APIError e \<and> contains ''429'' e \<and>
            last (ui_log (snd (generate_content_with_ai (Some svc) p si w))) =
              ErrorMsg (''Gemini API Call Failed: '' @ e))"
    if "\<forall>k<N. rate_limited (svc k)" "5 \<le> N"
  proof -
    have all: "\<forall>k<4. rate_limited (svc k)" and four: "rate_limited (svc 4)"
      using that by auto
    have eq: "generate_content_with_ai (Some svc) p si w = final_attempt (svc 4) p si (retried p si 0 4 w)"
      using all by (intro generate_after_rate_limits) auto
    from four obtain e where e: "svc 4 = APIError e" "contains ''429'' e"
      by (auto simp: rate_limited_def split: outcome.splits)
    have "last (ui_log (snd (final_attempt (APIError e) p si (retried p si 0 4 w)))) =
            ErrorMsg (''Gemini API Call Failed: '' @ e)"
      by (simp add: final_attempt_def Let_def)
    then show ?thesis
      using e by (simp add: eq final_attempt_result attempts_made_def)
  qed
  show ?thesis using bound ok stop err exhausted by blast
qed

lemma strip_example: "strip '' Kubernetes, DevOps '' = ''Kubernetes, DevOps''"
  by (simp add: strip_def lstrip_def rstrip_def isspace_def)

text \<open>
  The theorem at three services: two rate limits and then a response, rate limits
  without end, and a rate limit followed by a refused request.
\<close>

theorem generation_client_retry_bound_witness:
  "fst (generate_content_with_ai (Some flaky) ''p'' ''s'' initial_world) = Some ''Kubernetes, DevOps'' \<and>
   attempts_made initial_world (snd (generate_content_with_ai (Some flaky) ''p'' ''s'' initial_world)) = 3 \<and>
   sleeps (snd (generate_content_with_ai (Some flaky) ''p'' ''s'' initial_world)) = [2, 3] \<and>
   fst (generate_content_with_ai (Some throttled) ''p'' ''s'' initial_world) =
     Some ''Error: Could not connect to AI service or API key is invalid.'' \<and>
   attempts_made initial_world (snd (generate_content_with_ai (Some throttled) ''p'' ''s'' initial_world)) = 5 \<and>
   attempts_made initial_world (snd (generate_content_with_ai (Some forbidden) ''p'' ''s'' initial_world)) = 2"
proof -
  have f: "\<forall>k<2. rate_limited (flaky k)" "\<not> rate_limited (flaky 2)" "flaky 2 = Response (Some '' Kubernetes, DevOps '')"
    by (simp_all add: flaky_def rate_limited_def startswith_def)
  have th: "\<forall>k<5. rate_limited (throttled k)"
    by (simp add: throttled_def rate_limited_def startswith_def)
  have fo: "\<forall>k<1. rate_limited (forbidden k)" "\<not> rate_limited (forbidden 1)"
    by (simp_all add: forbidden_def rate_limited_def startswith_def)
  have s: "sleeps initial_world = []" by (simp add: initial_world_def)
  have u: "[0..<2] = [0, Suc 0]" by (simp add: upt_rec)
  show ?thesis
    using generation_client_retry_bound [of initial_world "Some flaky" "''p''" "''s''" 2 flaky "'' Kubernetes, DevOps ''"]
      generation_client_retry_bound [of initial_world "Some throttled" "''p''" "''s''" 5 throttled]
      generation_client_retry_bound [of initial_world "Some forbidden" "''p''" "''s''" 1 forbidden]
      f th fo
    by (simp add: strip_example s u)
qed

section \<open>What the handlers do with the result of the client\<close>

lemma generate_response:
  assumes "\<forall>k<N. rate_limited (svc k)" "N < 5" "svc N = Response (Some t)"
  shows "generate_content_with_ai (Some svc) p si w =
           (Some (strip t), (retried p si 0 N w)\<lparr>requests := requests w @ replicate (Suc N) (MODEL, p, si)\<rparr>)"
proof -
  have "\<not> rate_limited (svc N)" using assms(3) by (simp add: rate_limited_def)
  then show ?thesis
    using assms
    by (simp add: generate_after_rate_limits[of N] final_attempt_def replicate_append_same)
qed

lemma handle_suggest_skills_eq:
  assumes "generate_content_with_ai client (skills_prompt (data w)) skills_system_instruction
             (w\<lparr>ai_loading := Some (Key ''skills'')\<rparr>) = (Some r, w2)"
  shows "handle_suggest_skills lou client w =
           Inr ((if \<not> startswith r ''Error''
                 then w2\<lparr>data := (data w2)\<lparr>skills := lou (skills (data w2)) (parse_skills r)\<rparr>\<rparr>
                 else w2)\<lparr>ai_loading := None\<rparr>)"
  using assms by (simp add: handle_suggest_skills_def Let_def)

lemma handle_generate_summary_eq:
  assumes "generate_content_with_ai client (summary_prompt (data w)) summary_system_instruction
             (w\<lparr>ai_loading := Some (Key ''summary'')\<rparr>) = (Some r, w2)"
  shows "handle_generate_summary client w =
           Inr (w2\<lparr>data := (data w2)\<lparr>summary := r\<rparr>, ai_loading := None\<rparr>)"
  using assms by (simp add: handle_generate_summary_def Let_def)

lemma handle_refine_bullets_eq:
  assumes "find_item i section (data w) = Some (Some (item_title, item_text))" "item_text \<noteq> []"
    "generate_content_with_ai client (snd (refine_request section item_title item_text))
        (fst (refine_request section item_title item_text))
        (w\<lparr>ai_loading := Some (Id i)\<rparr>) = (Some r, w2)"
  shows "handle_refine_bullets client i section w =
           Inr ((if \<not> startswith r ''Error''
                 then w2\<lparr>data := merge_refined i section r (data w2)\<rparr>
                 else w2)\<lparr>ai_loading := None\<rparr>)"
  using assms by (simp add: handle_refine_bullets_def Let_def split_beta)

lemma handle_refine_bullets_nothing:
  assumes "find_item i section (data w) = Some None \<or>
           (\<exists>item_title. find_item i section (data w) = Some (Some (item_title, [])))"
  shows "handle_refine_bullets client i section w =
           Inr (no_raw_input (w\<lparr>ai_loading := Some (Id i)\<rparr>))"
  using assms by (auto simp: handle_refine_bullets_def Let_def)

lemma handle_generate_cover_letter_eq:
  assumes "cl_company (cover_letter_inputs (data w)) \<noteq> []" "cl_title (cover_letter_inputs (data w)) \<noteq> []"
    "generate_content_with_ai client (cover_letter_prompt (data w)) cover_letter_system_instruction
        (w\<lparr>ai_loading := Some (Key ''cover-letter''),
           data := (data w)\<lparr>cover_letter_draft := ''Generating professional cover letter draft...''\<rparr>\<rparr>)
       = (Some r, w3)"
  shows "handle_generate_cover_letter client w =
           Inr ((if \<not> startswith r ''Error''
                 then w3\<lparr>data := (data w3)\<lparr>cover_letter_draft := r\<rparr>\<rparr>
                 else w3)\<lparr>ai_loading := None\<rparr>)"
  using assms by (simp add: handle_generate_cover_letter_def Let_def)

lemma handle_generate_cover_letter_invalid:
  assumes "cl_company (cover_letter_inputs (data w)) = [] \<or> cl_title (cover_letter_inputs (data w)) = []"
  shows "handle_generate_cover_letter client w =
           Inr (w\<lparr>ai_loading := None, data := (data w)\<lparr>cover_letter_draft := validation_message\<rparr>\<rparr>)"
  using assms by (auto simp: handle_generate_cover_letter_def Let_def)

text \<open>
  The skills handler and the refinement handler keep the document when the client's
  result starts with \<open>Error\<close>, whatever made the generation fail.
\<close>

lemma generate_split:
  assumes "fst (generate_content_with_ai client p si w) = Some r"
  obtains w2 where "generate_content_with_ai client p si w = (Some r, w2)" "data w2 = data w"
proof -
  have "generate_content_with_ai client p si w = (Some r, snd (generate_content_with_ai client p si w))"
    using assms by (simp add: prod_eq_iff)
  then show ?thesis using that generate_frame(1) by blast
qed

lemma skills_kept_on_error:
  assumes "fst (generate_content_with_ai client (skills_prompt (data w)) skills_system_instruction
                  (w\<lparr>ai_loading := Some (Key ''skills'')\<rparr>)) = Some r"
    and "startswith r ''Error''"
  shows "\<exists>w'. handle_suggest_skills list_of_union client w = Inr w' \<and> data w' = data w"
proof -
  from assms(1) obtain w2 where
    gen: "generate_content_with_ai client (skills_prompt (data w)) skills_system_instruction
            (w\<lparr>ai_loading := Some (Key ''skills'')\<rparr>) = (Some r, w2)"
    and d: "data w2 = data (w\<lparr>ai_loading := Some (Key ''skills'')\<rparr>)"
    by (rule generate_split)
  show ?thesis
    unfolding handle_suggest_skills_eq[OF gen] using assms(2) d by simp
qed

lemma entries_kept_on_error:
  assumes "find_item i section (data w) = Some (Some (item_title, item_text))" and "item_text \<noteq> []"
    and "fst (generate_content_with_ai client (snd (refine_request section item_title item_text))
                (fst (refine_request section item_title item_text))
                (w\<lparr>ai_loading := Some (Id i)\<rparr>)) = Some r"
    and "startswith r ''Error''"
  shows "\<exists>w'. handle_refine_bullets client i section w = Inr w' \<and> data w' = data w"
proof -
  from assms(3) obtain w2 where
    gen: "generate_content_with_ai client (snd (refine_request section item_title item_text))
            (fst (refine_request section item_title item_text))
            (w\<lparr>ai_loading := Some (Id i)\<rparr>) = (Some r, w2)"
    and d: "data w2 = data (w\<lparr>ai_loading := Some (Id i)\<rparr>)"
    by (rule generate_split)
  show ?thesis
    unfolding handle_refine_bullets_eq[OF assms(1,2) gen] using assms(4) d by simp
qed

section \<open>Merging suggested skills\<close>

lemma set_parse_skills:
  "set (parse_skills r) = strip ` {s \<in> set (split (CHR '','') r). strip s \<noteq> []}"
  by (auto simp: parse_skills_def)

lemma parse_skills_nonempty: "[] \<notin> set (parse_skills r)"
  by (auto simp: parse_skills_def)

text \<open>
  Claim C3. Let the skills of the document be duplicate-free and without empty strings,
  and let the client return a text that does not start with \<open>Error\<close> (a response,
  possibly after rate limits). Then the handler succeeds, and the new skills are, as a
  set, the old skills together with the trimmed non-empty tokens of the text split at
  commas; they have no duplicate and no empty string, they are at least as many as
  before, and nothing else of the document changes.
\<close>

theorem skills_merge_is_union:
  assumes "set_listing list_of_union"
    and "distinct (skills (data w))" and "[] \<notin> set (skills (data w))"
    and "\<forall>k<N. rate_limited (svc k)" and "N < 5" and "svc N = Response (Some t)"
    and "\<not> startswith (strip t) ''Error''"
  shows "\<exists>w'. handle_suggest_skills list_of_union (Some svc) w = Inr w' \<and>
           set (skills (data w')) =
             set (skills (data w)) \<union> strip ` {s \<in> set (split (CHR '','') (strip t)). strip s \<noteq> []} \<and>
           distinct (skills (data w')) \<and> [] \<notin> set (skills (data w')) \<and>
           length (skills (data w)) \<le> length (skills (data w')) \<and>
           data w' = (data w)\<lparr>skills := skills (data w')\<rparr>"
proof -
  let ?w1 = "w\<lparr>ai_loading := Some (Key ''skills'')\<rparr>"
  let ?p = "skills_prompt (data w)"
  let ?w2 = "(retried ?p skills_system_instruction 0 N ?w1)
               \<lparr>requests := requests ?w1 @ replicate (Suc N) (MODEL, ?p, skills_system_instruction)\<rparr>"
  let ?merged = "list_of_union (skills (data w)) (parse_skills (strip t))"
  have gen: "generate_content_with_ai (Some svc) ?p skills_system_instruction ?w1 = (Some (strip t), ?w2)"
    using assms(4-6) by (rule generate_response)
  have d2: "data ?w2 = data w" by simp
  have res: "handle_suggest_skills list_of_union (Some svc) w =
               Inr ((?w2\<lparr>data := (data ?w2)\<lparr>skills := list_of_union (skills (data ?w2)) (parse_skills (strip t))\<rparr>\<rparr>)
                      \<lparr>ai_loading := None\<rparr>)"
    using handle_suggest_skills_eq[OF gen, of list_of_union] assms(7) by simp
  have listing: "distinct ?merged" "set ?merged = set (skills (data w)) \<union> set (parse_skills (strip t))"
    using assms(1) by (simp_all add: set_listing_def)
  have "card (set (skills (data w))) \<le> card (set ?merged)"
    by (rule card_mono) (simp_all add: listing(2))
  then have len: "length (skills (data w)) \<le> length ?merged"
    using assms(2) listing(1) by (simp add: distinct_card)
  have nonempty: "[] \<notin> set ?merged"
    using assms(3) parse_skills_nonempty by (simp add: listing(2))
  define w' where "w' = (?w2\<lparr>data := (data ?w2)\<lparr>skills := list_of_union (skills (data ?w2)) (parse_skills (strip t))\<rparr>\<rparr>)
                      \<lparr>ai_loading := None\<rparr>"
  have dw: "data w' = (data w)\<lparr>skills := ?merged\<rparr>"
    by (simp add: w'_def)
  have "handle_suggest_skills list_of_union (Some svc) w = Inr w'"
    using res by (simp only: w'_def)
  then show ?thesis
    using listing len nonempty
    by (intro exI[of _ w'] conjI) (simp_all add: dw set_parse_skills)
qed

lemma parse_skills_example: "parse_skills ''Kubernetes, DevOps'' = [''Kubernetes'', ''DevOps'']"
  by (simp add: parse_skills_def strip_def lstrip_def rstrip_def isspace_def)

lemma flaky_facts:
  "\<forall>k<2. rate_limited (flaky k)" "flaky 2 = Response (Some '' Kubernetes, DevOps '')"
  by (simp_all add: flaky_def rate_limited_def startswith_def)

text \<open>The theorem at the initial document and a suggestion of two skills.\<close>

theorem skills_merge_is_union_witness:
  "set_listing (\<lambda>a b. remdups (a @ b)) \<and>
   distinct (skills (data initial_world)) \<and> [] \<notin> set (skills (data initial_world)) \<and>
   \<not> startswith (strip '' Kubernetes, DevOps '') ''Error'' \<and>
   (\<exists>w'. handle_suggest_skills (\<lambda>a b. remdups (a @ b)) (Some flaky) initial_world = Inr w' \<and>
      set (skills (data w')) = set (skills (data initial_world)) \<union> {''Kubernetes'', ''DevOps''} \<and>
      distinct (skills (data w')) \<and> [] \<notin> set (skills (data w')) \<and>
      length (skills (data initial_world)) \<le> length (skills (data w')))"
proof -
  have h1: "set_listing (\<lambda>a b. remdups (a @ b))" by (simp add: set_listing_def)
  have h2: "distinct (skills (data initial_world))" "[] \<notin> set (skills (data initial_world))"
    by (simp_all add: initial_world_def initial_data_def)
  have h3: "\<not> startswith (strip '' Kubernetes, DevOps '') ''Error''"
    by (simp add: strip_example startswith_def)
  have ev: "strip ` {s \<in> set (split (CHR '','') ''Kubernetes, DevOps''). strip s \<noteq> []} = {''Kubernetes'', ''DevOps''}"
    unfolding set_parse_skills[symmetric] by (simp add: parse_skills_example)
  obtain w' where w': "handle_suggest_skills (\<lambda>a b. remdups (a @ b)) (Some flaky) initial_world = Inr w'"
      "set (skills (data w')) = set (skills (data initial_world)) \<union> {''Kubernetes'', ''DevOps''}"
      "distinct (skills (data w'))" "[] \<notin> set (skills (data w'))"
      "length (skills (data initial_world)) \<le> length (skills (data w'))"
    using skills_merge_is_union [OF h1 h2 flaky_facts(1) _ flaky_facts(2) h3, unfolded strip_example ev]
    by auto
  show ?thesis
    using h1 h2 h3 w' by blast
qed

section \<open>The merge handlers\<close>

lemma find_item_experience:
  "find_item i ''experience'' d =
     Some (map_option (\<lambda>e. (title e, bullets e)) (find (\<lambda>e. exp_id e = i) (experience d)))"
  by (simp add: find_item_def)

lemma find_item_portfolio:
  "find_item i ''portfolio'' d =
     Some (map_option (\<lambda>p. (proj_name p, description p)) (find (\<lambda>p. proj_id p = i) (portfolio d)))"
  by (simp add: find_item_def)

lemma find_None_iff_ids: "find (\<lambda>x. f x = i) xs = None \<longleftrightarrow> (\<forall>x\<in>set xs. f x \<noteq> i)"
  by (auto simp: find_None_iff)

lemma no_raw_input_fields [simp]:
  "data (no_raw_input w) = data w"
  "requests (no_raw_input w) = requests w"
  "ui_log (no_raw_input w) = ui_log w @ [Warning ''No raw input to refine.'']"
  "ai_loading (no_raw_input w) = None"
  by (simp_all add: no_raw_input_def)

text \<open>
  Claim C5. The handler reads the entry for an id as the first entry of the section
  with that id. When that entry's raw text (\<open>bullets\<close> of an experience entry,
  \<open>description\<close> of a portfolio entry) is empty, the handler returns without sending a
  request, shows the warning \<open>No raw input to refine.\<close>, and leaves the document as it
  was; this holds for every client.
\<close>

theorem empty_raw_text_is_not_sent:
  "(find (\<lambda>x. exp_id x = i) (experience (data w)) = Some e \<longrightarrow> bullets e = [] \<longrightarrow>
      (\<exists>w'. handle_refine_bullets client i ''experience'' w = Inr w' \<and>
            requests w' = requests w \<and>
            ui_log w' = ui_log w @ [Warning ''No raw input to refine.''] \<and>
            data w' = data w \<and> ai_loading w' = None)) \<and>
   (find (\<lambda>x. proj_id x = i) (portfolio (data w)) = Some p \<longrightarrow> description p = [] \<longrightarrow>
      (\<exists>w'. handle_refine_bullets client i ''portfolio'' w = Inr w' \<and>
            requests w' = requests w \<and>
            ui_log w' = ui_log w @ [Warning ''No raw input to refine.''] \<and>
            data w' = data w \<and> ai_loading w' = None))"
proof (intro conjI impI)
  assume "find (\<lambda>x. exp_id x = i) (experience (data w)) = Some e" "bullets e = []"
  then have "find_item i ''experience'' (data w) = Some (Some (title e, []))"
    by (simp add: find_item_experience)
  then have "handle_refine_bullets client i ''experience'' w =
               Inr (no_raw_input (w\<lparr>ai_loading := Some (Id i)\<rparr>))"
    by (intro handle_refine_bullets_nothing) blast
  then show "\<exists>w'. handle_refine_bullets client i ''experience'' w = Inr w' \<and>
            requests w' = requests w \<and>
            ui_log w' = ui_log w @ [Warning ''No raw input to refine.''] \<and>
            data w' = data w \<and> ai_loading w' = None"
    by simp
next
  assume "find (\<lambda>x. proj_id x = i) (portfolio (data w)) = Some p" "description p = []"
  then have "find_item i ''portfolio'' (data w) = Some (Some (proj_name p, []))"
    by (simp add: find_item_portfolio)
  then have "handle_refine_bullets client i ''portfolio'' w =
               Inr (no_raw_input (w\<lparr>ai_loading := Some (Id i)\<rparr>))"
    by (intro handle_refine_bullets_nothing) blast
  then show "\<exists>w'. handle_refine_bullets client i ''portfolio'' w = Inr w' \<and>
            requests w' = requests w \<and>
            ui_log w' = ui_log w @ [Warning ''No raw input to refine.''] \<and>
            data w' = data w \<and> ai_loading w' = None"
    by simp
qed

text \<open>
  The theorem at a document with an experience entry just added (empty fields) and a
  project without description.
\<close>

theorem empty_raw_text_is_not_sent_witness:
  "find (\<lambda>x. exp_id x = 1730000000.5) (experience (data blank_entries)) =
     Some \<lparr>exp_id = 1730000000.5, title = '''', company = '''', exp_dates = '''', bullets = ''''\<rparr> \<and>
   (\<exists>w'. handle_refine_bullets (Some flaky) 1730000000.5 ''experience'' blank_entries = Inr w' \<and>
         requests w' = [] \<and> ui_log w' = [Warning ''No raw input to refine.''] \<and>
         data w' = data blank_entries) \<and>
   find (\<lambda>x. proj_id x = 1) (portfolio (data blank_entries)) =
     Some \<lparr>proj_id = 1, proj_name = ''Resume Builder'', link = '''', description = ''''\<rparr> \<and>
   (\<exists>w'. handle_refine_bullets (Some flaky) 1 ''portfolio'' blank_entries = Inr w' \<and>
         requests w' = [] \<and> ui_log w' = [Warning ''No raw input to refine.''] \<and>
         data w' = data blank_entries)"
proof -
  have e: "find (\<lambda>x. exp_id x = 1730000000.5) (experience (data blank_entries)) =
     Some \<lparr>exp_id = 1730000000.5, title = '''', company = '''', exp_dates = '''', bullets = ''''\<rparr>"
    by (simp add: blank_entries_def)
  have p: "find (\<lambda>x. proj_id x = 1) (portfolio (data blank_entries)) =
     Some \<lparr>proj_id = 1, proj_name = ''Resume Builder'', link = '''', description = ''''\<rparr>"
    by (simp add: blank_entries_def)
  have r: "requests blank_entries = []" "ui_log blank_entries = []"
    by (simp_all add: blank_entries_def initial_world_def)
  have a: "\<exists>w'. handle_refine_bullets (Some flaky) 1730000000.5 ''experience'' blank_entries = Inr w' \<and>
         requests w' = [] \<and> ui_log w' = [Warning ''No raw input to refine.''] \<and>
         data w' = data blank_entries"
    using empty_raw_text_is_not_sent
      [where i = "1730000000.5" and w = blank_entries and client = "Some flaky"
         and e = "\<lparr>exp_id = 1730000000.5, title = '''', company = '''', exp_dates = '''', bullets = ''''\<rparr>"
         and p = "\<lparr>proj_id = 1, proj_name = ''Resume Builder'', link = '''', description = ''''\<rparr>"]
      e
    by (auto simp: r)
  have b: "\<exists>w'. handle_refine_bullets (Some flaky) 1 ''portfolio'' blank_entries = Inr w' \<and>
         requests w' = [] \<and> ui_log w' = [Warning ''No raw input to refine.''] \<and>
         data w' = data blank_entries"
    using empty_raw_text_is_not_sent
      [where i = 1 and w = blank_entries and client = "Some flaky"
         and e = "\<lparr>exp_id = 1730000000.5, title = '''', company = '''', exp_dates = '''', bullets = ''''\<rparr>"
         and p = "\<lparr>proj_id = 1, proj_name = ''Resume Builder'', link = '''', description = ''''\<rparr>"]
      p
    by (auto simp: r)
  show ?thesis using a b e p by blast
qed

text \<open>
  Claim C6. When the target company or the target job title is the empty string, the
  cover-letter handler sends no request, sets the draft to the validation message (a
  text starting with \<open>Error\<close>), changes nothing else of the document and clears the
  in-flight marker.
\<close>

theorem cover_letter_validation:
  assumes "cl_company (cover_letter_inputs (data w)) = [] \<or> cl_title (cover_letter_inputs (data w)) = []"
  shows "\<exists>w'. handle_generate_cover_letter client w = Inr w' \<and>
           requests w' = requests w \<and>
           cover_letter_draft (data w') = ''Error: Please enter both Target Company and Job Title.'' \<and>
           startswith (cover_letter_draft (data w')) ''Error'' \<and>
           data w' = (data w)\<lparr>cover_letter_draft := cover_letter_draft (data w')\<rparr> \<and>
           ai_loading w' = None"
  using handle_generate_cover_letter_invalid[OF assms, of client]
  by (simp add: validation_message_def startswith_def)

text \<open>
  The theorem at a document with a job title and no company.
\<close>

theorem cover_letter_validation_witness:
  "cl_company (cover_letter_inputs (data no_company)) = [] \<and>
   (\<exists>w'. handle_generate_cover_letter (Some flaky) no_company = Inr w' \<and>
         requests w' = [] \<and>
         cover_letter_draft (data w') = ''Error: Please enter both Target Company and Job Title.'')"
proof -
  have h: "cl_company (cover_letter_inputs (data no_company)) = []"
    by (simp add: no_company_def)
  have r: "requests no_company = []"
    by (simp add: no_company_def initial_world_def)
  show ?thesis
    using cover_letter_validation [of no_company "Some flaky"] h by (auto simp: r)
qed

lemma merge_refined_experience:
  "merge_refined i ''experience'' r d =
     d\<lparr>experience := map (\<lambda>e. if exp_id e = i then e\<lparr>bullets := r\<rparr> else e) (experience d)\<rparr>"
  by (simp add: merge_refined_def)

lemma merge_refined_portfolio:
  "merge_refined i ''portfolio'' r d =
     d\<lparr>portfolio := map (\<lambda>p. if proj_id p = i then p\<lparr>description := r\<rparr> else p) (portfolio d)\<rparr>"
  by (simp add: merge_refined_def)

text \<open>The result of a refinement whose request is answered after \<open>N\<close> rate limits.\<close>

lemma handle_refine_bullets_response:
  assumes "\<forall>k<N. rate_limited (svc k)" "N < 5" "svc N = Response (Some t)"
    and "find_item i section (data w) = Some (Some (item_title, item_text))" "item_text \<noteq> []"
  shows "\<exists>w'. handle_refine_bullets (Some svc) i section w = Inr w' \<and>
           data w' = (if startswith (strip t) ''Error'' then data w
                      else merge_refined i section (strip t) (data w)) \<and>
           attempts_made w w' = N + 1"
proof -
  let ?si = "fst (refine_request section item_title item_text)"
  let ?p = "snd (refine_request section item_title item_text)"
  let ?w1 = "w\<lparr>ai_loading := Some (Id i)\<rparr>"
  let ?w2 = "(retried ?p ?si 0 N ?w1)\<lparr>requests := requests ?w1 @ replicate (Suc N) (MODEL, ?p, ?si)\<rparr>"
  have gen: "generate_content_with_ai (Some svc) ?p ?si ?w1 = (Some (strip t), ?w2)"
    using assms(1-3) by (rule generate_response)
  show ?thesis
    unfolding handle_refine_bullets_eq[OF assms(4,5) gen]
    by (simp add: attempts_made_def)
qed

text \<open>
  Claim C4. Let the client return a text that does not start with \<open>Error\<close>. When the
  entry the handler reads for the id has raw text, the experience (portfolio) sequence
  keeps its length and order; every entry with the given id has its \<open>bullets\<close>
  (\<open>description\<close>) replaced by the text and its other fields kept, every other entry is
  as before, and so is the rest of the document. When no entry has the id, the document
  is unchanged and no request is sent, for every client.
\<close>

theorem refinement_replaces_matching_entry:
  assumes "\<forall>k<N. rate_limited (svc k)" and "N < 5" and "svc N = Response (Some t)"
    and "\<not> startswith (strip t) ''Error''"
  shows
   "(find (\<lambda>x. exp_id x = i) (experience (data w)) = Some e \<longrightarrow> bullets e \<noteq> [] \<longrightarrow>
      (\<exists>w'. handle_refine_bullets (Some svc) i ''experience'' w = Inr w' \<and>
         length (experience (data w')) = length (experience (data w)) \<and>
         (\<forall>j<length (experience (data w)).
            experience (data w') ! j =
              (if exp_id (experience (data w) ! j) = i
               then (experience (data w) ! j)\<lparr>bullets := strip t\<rparr>
               else experience (data w) ! j)) \<and>
         data w' = (data w)\<lparr>experience := experience (data w')\<rparr>)) \<and>
    (find (\<lambda>x. proj_id x = i) (portfolio (data w)) = Some p \<longrightarrow> description p \<noteq> [] \<longrightarrow>
      (\<exists>w'. handle_refine_bullets (Some svc) i ''portfolio'' w = Inr w' \<and>
         length (portfolio (data w')) = length (portfolio (data w)) \<and>
         (\<forall>j<length (portfolio (data w)).
            portfolio (data w') ! j =
              (if proj_id (portfolio (data w) ! j) = i
               then (portfolio (data w) ! j)\<lparr>description := strip t\<rparr>
               else portfolio (data w) ! j)) \<and>
         data w' = (data w)\<lparr>portfolio := portfolio (data w')\<rparr>)) \<and>
    ((\<forall>x\<in>set (experience (data w)). exp_id x \<noteq> i) \<longrightarrow>
      (\<exists>w'. handle_refine_bullets client i ''experience'' w = Inr w' \<and>
         data w' = data w \<and> requests w' = requests w)) \<and>
    ((\<forall>x\<in>set (portfolio (data w)). proj_id x \<noteq> i) \<longrightarrow>
      (\<exists>w'. handle_refine_bullets client i ''portfolio'' w = Inr w' \<and>
         data w' = data w \<and> requests w' = requests w))"
proof (intro conjI impI)
  assume f: "find (\<lambda>x. exp_id x = i) (experience (data w)) = Some e" and b: "bullets e \<noteq> []"
  have "find_item i ''experience'' (data w) = Some (Some (title e, bullets e))"
    using f by (simp add: find_item_experience)
  from handle_refine_bullets_response[OF assms(1-3) this b]
  obtain w' where w': "handle_refine_bullets (Some svc) i ''experience'' w = Inr w'"
    "data w' = merge_refined i ''experience'' (strip t) (data w)"
    using assms(4) by auto
  show "\<exists>w'. handle_refine_bullets (Some svc) i ''experience'' w = Inr w' \<and>
         length (experience (data w')) = length (experience (data w)) \<and>
         (\<forall>j<length (experience (data w)).
            experience (data w') ! j =
              (if exp_id (experience (data w) ! j) = i
               then (experience (data w) ! j)\<lparr>bullets := strip t\<rparr>
               else experience (data w) ! j)) \<and>
         data w' = (data w)\<lparr>experience := experience (data w')\<rparr>"
    using w' by (intro exI[of _ w']) (simp add: merge_refined_experience)
next
  assume f: "find (\<lambda>x. proj_id x = i) (portfolio (data w)) = Some p" and b: "description p \<noteq> []"
  have "find_item i ''portfolio'' (data w) = Some (Some (proj_name p, description p))"
    using f by (simp add: find_item_portfolio)
  from handle_refine_bullets_response[OF assms(1-3) this b]
  obtain w' where w': "handle_refine_bullets (Some svc) i ''portfolio'' w = Inr w'"
    "data w' = merge_refined i ''portfolio'' (strip t) (data w)"
    using assms(4) by auto
  show "\<exists>w'. handle_refine_bullets (Some svc) i ''portfolio'' w = Inr w' \<and>
         length (portfolio (data w')) = length (portfolio (data w)) \<and>
         (\<forall>j<length (portfolio (data w)).
            portfolio (data w') ! j =
              (if proj_id (portfolio (data w) ! j) = i
               then (portfolio (data w) ! j)\<lparr>description := strip t\<rparr>
               else portfolio (data w) ! j)) \<and>
         data w' = (data w)\<lparr>portfolio := portfolio (data w')\<rparr>"
    using w' by (intro exI[of _ w']) (simp add: merge_refined_portfolio)
next
  assume "\<forall>x\<in>set (experience (data w)). exp_id x \<noteq> i"
  then have "find (\<lambda>x. exp_id x = i) (experience (data w)) = None"
    by (simp add: find_None_iff_ids)
  then have "find_item i ''experience'' (data w) = Some None"
    by (simp add: find_item_experience)
  then have "handle_refine_bullets client i ''experience'' w =
               Inr (no_raw_input (w\<lparr>ai_loading := Some (Id i)\<rparr>))"
    by (intro handle_refine_bullets_nothing) blast
  then show "\<exists>w'. handle_refine_bullets client i ''experience'' w = Inr w' \<and>
         data w' = data w \<and> requests w' = requests w"
    by simp
next
  assume "\<forall>x\<in>set (portfolio (data w)). proj_id x \<noteq> i"
  then have "find (\<lambda>x. proj_id x = i) (portfolio (data w)) = None"
    by (simp add: find_None_iff_ids)
  then have "find_item i ''portfolio'' (data w) = Some None"
    by (simp add: find_item_portfolio)
  then have "handle_refine_bullets client i ''portfolio'' w =
               Inr (no_raw_input (w\<lparr>ai_loading := Some (Id i)\<rparr>))"
    by (intro handle_refine_bullets_nothing) blast
  then show "\<exists>w'. handle_refine_bullets client i ''portfolio'' w = Inr w' \<and>
         data w' = data w \<and> requests w' = requests w"
    by simp
qed

lemma refiner_strip:
  "strip refined_text = ''Built a resume tool used by 40 students.''"
  by (simp add: refined_text_def strip_def lstrip_def rstrip_def isspace_def newline_def)

text \<open>
  The theorem at a document with two experience entries, at the initial document for
  the portfolio, and at the id 7 that no entry carries.
\<close>

theorem refinement_replaces_matching_entry_witness:
  "refiner 0 = Response (Some refined_text) \<and>
   \<not> startswith (strip refined_text) ''Error'' \<and>
   (\<exists>w'. handle_refine_bullets (Some refiner) 1 ''experience'' blank_entries = Inr w' \<and>
      length (experience (data w')) = 2 \<and>
      experience (data w') ! 0 =
        \<lparr>exp_id = 1, title = ''AI and Cloud Intern'', company = ''Edunet'', exp_dates = ''2024'',
         bullets = ''Built a resume tool used by 40 students.''\<rparr> \<and>
      experience (data w') ! 1 =
        \<lparr>exp_id = 1730000000.5, title = '''', company = '''', exp_dates = '''', bullets = ''''\<rparr> \<and>
      data w' = (data blank_entries)\<lparr>experience := experience (data w')\<rparr>) \<and>
   (\<exists>w'. handle_refine_bullets (Some refiner) 1 ''portfolio'' initial_world = Inr w' \<and>
      length (portfolio (data w')) = 1 \<and>
      portfolio (data w') ! 0 =
        \<lparr>proj_id = 1, proj_name = ''AI Resume Builder Project'', link = ''https://github.com/my-project'',
         description = ''Built a resume tool used by 40 students.''\<rparr>) \<and>
   (\<exists>w'. handle_refine_bullets None 7 ''experience'' initial_world = Inr w' \<and>
      data w' = data initial_world \<and> requests w' = requests initial_world) \<and>
   (\<exists>w'. handle_refine_bullets None 7 ''portfolio'' initial_world = Inr w' \<and>
      data w' = data initial_world \<and> requests w' = requests initial_world)"
proof -
  have h: "\<forall>k<0. rate_limited (refiner k)" "(0::nat) < 5"
    "refiner 0 = Response (Some refined_text)"
    "\<not> startswith (strip refined_text) ''Error''"
    by (simp_all add: refiner_def refiner_strip startswith_def)
  let ?e1 = "\<lparr>exp_id = 1, title = ''AI and Cloud Intern'', company = ''Edunet'',
               exp_dates = ''2024'', bullets = ''Led a team''\<rparr>"
  let ?e2 = "\<lparr>exp_id = 1730000000.5, title = '''', company = '''', exp_dates = '''', bullets = ''''\<rparr>"
  let ?p1 = "\<lparr>proj_id = 1, proj_name = ''AI Resume Builder Project'',
               link = ''https://github.com/my-project'',
               description = ''Developed an AI tool to generate and optimize resumes and portfolios using Gemini API for content refinement.''\<rparr>"
  have ex: "experience (data blank_entries) = [?e1, ?e2]"
    by (simp add: blank_entries_def)
  have fe: "find (\<lambda>x. exp_id x = 1) (experience (data blank_entries)) = Some ?e1" "bullets ?e1 \<noteq> []"
    by (simp_all add: ex)
  have po: "portfolio (data initial_world) = [?p1]"
    by (simp add: initial_world_def initial_data_def)
  have fp: "find (\<lambda>x. proj_id x = 1) (portfolio (data initial_world)) = Some ?p1" "description ?p1 \<noteq> []"
    by (simp_all add: po)
  have "\<exists>w'. handle_refine_bullets (Some refiner) 1 ''experience'' blank_entries = Inr w' \<and>
         length (experience (data w')) = length (experience (data blank_entries)) \<and>
         (\<forall>j<length (experience (data blank_entries)).
            experience (data w') ! j =
              (if exp_id (experience (data blank_entries) ! j) = 1
               then (experience (data blank_entries) ! j)\<lparr>bullets := strip refined_text\<rparr>
               else experience (data blank_entries) ! j)) \<and>
         data w' = (data blank_entries)\<lparr>experience := experience (data w')\<rparr>"
    using refinement_replaces_matching_entry [OF h,
      where i = 1 and w = blank_entries and e = ?e1 and p = ?p1 and client = None] fe
    by blast
  then have a: "\<exists>w'. handle_refine_bullets (Some refiner) 1 ''experience'' blank_entries = Inr w' \<and>
      length (experience (data w')) = 2 \<and>
      experience (data w') ! 0 =
        \<lparr>exp_id = 1, title = ''AI and Cloud Intern'', company = ''Edunet'', exp_dates = ''2024'',
         bullets = ''Built a resume tool used by 40 students.''\<rparr> \<and>
      experience (data w') ! 1 =
        \<lparr>exp_id = 1730000000.5, title = '''', company = '''', exp_dates = '''', bullets = ''''\<rparr> \<and>
      data w' = (data blank_entries)\<lparr>experience := experience (data w')\<rparr>"
    by (auto simp: ex refiner_strip less_Suc_eq imp_disjL all_conj_distrib numeral_2_eq_2)
  have "\<exists>w'. handle_refine_bullets (Some refiner) 1 ''portfolio'' initial_world = Inr w' \<and>
         length (portfolio (data w')) = length (portfolio (data initial_world)) \<and>
         (\<forall>j<length (portfolio (data initial_world)).
            portfolio (data w') ! j =
              (if proj_id (portfolio (data initial_world) ! j) = 1
               then (portfolio (data initial_world) ! j)\<lparr>description := strip refined_text\<rparr>
               else portfolio (data initial_world) ! j)) \<and>
         data w' = (data initial_world)\<lparr>portfolio := portfolio (data w')\<rparr>"
    using refinement_replaces_matching_entry [OF h,
      where i = 1 and w = initial_world and e = ?e1 and p = ?p1 and client = None] fp
    by blast
  then have b: "\<exists>w'. handle_refine_bullets (Some refiner) 1 ''portfolio'' initial_world = Inr w' \<and>
      length (portfolio (data w')) = 1 \<and>
      portfolio (data w') ! 0 =
        \<lparr>proj_id = 1, proj_name = ''AI Resume Builder Project'', link = ''https://github.com/my-project'',
         description = ''Built a resume tool used by 40 students.''\<rparr>"
    by (auto simp: po refiner_strip)
  have ids: "\<forall>x\<in>set (experience (data initial_world)). exp_id x \<noteq> 7"
    "\<forall>x\<in>set (portfolio (data initial_world)). proj_id x \<noteq> 7"
    by (simp_all add: initial_world_def initial_data_def)
  have c: "\<exists>w'. handle_refine_bullets None 7 ''experience'' initial_world = Inr w' \<and>
      data w' = data initial_world \<and> requests w' = requests initial_world"
    using refinement_replaces_matching_entry [OF h,
      where i = 7 and w = initial_world and e = ?e1 and p = ?p1 and client = None] ids
    by blast
  have d: "\<exists>w'. handle_refine_bullets None 7 ''portfolio'' initial_world = Inr w' \<and>
      data w' = data initial_world \<and> requests w' = requests initial_world"
    using refinement_replaces_matching_entry [OF h,
      where i = 7 and w = initial_world and e = ?e1 and p = ?p1 and client = None] ids
    by blast
  show ?thesis using h(3,4) a b c d by blast
qed

lemma handle_suggest_skills_response:
  assumes "\<forall>k<N. rate_limited (svc k)" "N < 5" "svc N = Response (Some t)"
  shows "\<exists>w'. handle_suggest_skills list_of_union (Some svc) w = Inr w' \<and>
           data w' = (if startswith (strip t) ''Error'' then data w
                      else (data w)\<lparr>skills := list_of_union (skills (data w)) (parse_skills (strip t))\<rparr>)"
proof -
  let ?p = "skills_prompt (data w)"
  let ?w1 = "w\<lparr>ai_loading := Some (Key ''skills'')\<rparr>"
  let ?w2 = "(retried ?p skills_system_instruction 0 N ?w1)
               \<lparr>requests := requests ?w1 @ replicate (Suc N) (MODEL, ?p, skills_system_instruction)\<rparr>"
  have gen: "generate_content_with_ai (Some svc) ?p skills_system_instruction ?w1 = (Some (strip t), ?w2)"
    using assms by (rule generate_response)
  show ?thesis
    unfolding handle_suggest_skills_eq[OF gen] by simp
qed

lemma handle_generate_summary_response:
  assumes "\<forall>k<N. rate_limited (svc k)" "N < 5" "svc N = Response (Some t)"
  shows "\<exists>w'. handle_generate_summary (Some svc) w = Inr w' \<and>
           data w' = (data w)\<lparr>summary := strip t\<rparr>"
proof -
  let ?p = "summary_prompt (data w)"
  let ?w1 = "w\<lparr>ai_loading := Some (Key ''summary'')\<rparr>"
  let ?w2 = "(retried ?p summary_system_instruction 0 N ?w1)
               \<lparr>requests := requests ?w1 @ replicate (Suc N) (MODEL, ?p, summary_system_instruction)\<rparr>"
  have gen: "generate_content_with_ai (Some svc) ?p summary_system_instruction ?w1 = (Some (strip t), ?w2)"
    using assms by (rule generate_response)
  show ?thesis
    unfolding handle_generate_summary_eq[OF gen] by simp
qed

lemma handle_generate_cover_letter_response:
  assumes "\<forall>k<N. rate_limited (svc k)" "N < 5" "svc N = Response (Some t)"
    and "cl_company (cover_letter_inputs (data w)) \<noteq> []" "cl_title (cover_letter_inputs (data w)) \<noteq> []"
  shows "\<exists>w'. handle_generate_cover_letter (Some svc) w = Inr w' \<and>
           data w' = (data w)\<lparr>cover_letter_draft :=
              (if startswith (strip t) ''Error'' then ''Generating professional cover letter draft...''
               else strip t)\<rparr>"
proof -
  let ?p = "cover_letter_prompt (data w)"
  let ?w2 = "w\<lparr>ai_loading := Some (Key ''cover-letter''),
               data := (data w)\<lparr>cover_letter_draft := ''Generating professional cover letter draft...''\<rparr>\<rparr>"
  let ?w3 = "(retried ?p cover_letter_system_instruction 0 N ?w2)
               \<lparr>requests := requests ?w2 @ replicate (Suc N) (MODEL, ?p, cover_letter_system_instruction)\<rparr>"
  have gen: "generate_content_with_ai (Some svc) ?p cover_letter_system_instruction ?w2 = (Some (strip t), ?w3)"
    using assms(1-3) by (rule generate_response)
  show ?thesis
    unfolding handle_generate_cover_letter_eq[OF assms(4,5) gen] by simp
qed

text \<open>
  Claim C10. Let the service answer with a text \<open>t\<close> (possibly after rate limits). The
  summary handler stores the trimmed text whatever it starts with. The skills, the
  refinement and the cover-letter handler merge it exactly when it does not start with
  \<open>Error\<close>: otherwise the skills and the entries are as before, and the draft holds the
  text set before the request, not the answer.
\<close>

theorem error_prefix_classifies_results:
  assumes "\<forall>k<N. rate_limited (svc k)" and "N < 5" and "svc N = Response (Some t)"
  shows
   "(\<exists>w'. handle_generate_summary (Some svc) w = Inr w' \<and>
          data w' = (data w)\<lparr>summary := strip t\<rparr>) \<and>
    (\<exists>w'. handle_suggest_skills list_of_union (Some svc) w = Inr w' \<and>
          data w' = (if startswith (strip t) ''Error'' then data w
                     else (data w)\<lparr>skills := list_of_union (skills (data w)) (parse_skills (strip t))\<rparr>)) \<and>
    (find_item i section_key (data w) = Some (Some (item_title, item_text)) \<longrightarrow> item_text \<noteq> [] \<longrightarrow>
       (\<exists>w'. handle_refine_bullets (Some svc) i section_key w = Inr w' \<and>
             data w' = (if startswith (strip t) ''Error'' then data w
                        else merge_refined i section_key (strip t) (data w)))) \<and>
    (cl_company (cover_letter_inputs (data w)) \<noteq> [] \<longrightarrow> cl_title (cover_letter_inputs (data w)) \<noteq> [] \<longrightarrow>
       (\<exists>w'. handle_generate_cover_letter (Some svc) w = Inr w' \<and>
             data w' = (data w)\<lparr>cover_letter_draft :=
               (if startswith (strip t) ''Error'' then ''Generating professional cover letter draft...''
                else strip t)\<rparr>))"
proof (intro conjI impI)
  show "\<exists>w'. handle_generate_summary (Some svc) w = Inr w' \<and> data w' = (data w)\<lparr>summary := strip t\<rparr>"
    using assms by (rule handle_generate_summary_response)
  show "\<exists>w'. handle_suggest_skills list_of_union (Some svc) w = Inr w' \<and>
          data w' = (if startswith (strip t) ''Error'' then data w
                     else (data w)\<lparr>skills := list_of_union (skills (data w)) (parse_skills (strip t))\<rparr>)"
    using assms by (rule handle_suggest_skills_response)
next
  assume "find_item i section_key (data w) = Some (Some (item_title, item_text))" "item_text \<noteq> []"
  from handle_refine_bullets_response[OF assms this]
  show "\<exists>w'. handle_refine_bullets (Some svc) i section_key w = Inr w' \<and>
             data w' = (if startswith (strip t) ''Error'' then data w
                        else merge_refined i section_key (strip t) (data w))"
    by blast
next
  assume "cl_company (cover_letter_inputs (data w)) \<noteq> []" "cl_title (cover_letter_inputs (data w)) \<noteq> []"
  from handle_generate_cover_letter_response[OF assms this]
  show "\<exists>w'. handle_generate_cover_letter (Some svc) w = Inr w' \<and>
             data w' = (data w)\<lparr>cover_letter_draft :=
               (if startswith (strip t) ''Error'' then ''Generating professional cover letter draft...''
                else strip t)\<rparr>"
    .
qed

lemma quota_text_facts:
  "\<forall>k<0. rate_limited (quota_text k)" "(0::nat) < 5"
  "quota_text 0 = Response (Some ''Error 503: model overloaded'')"
  by (simp_all add: quota_text_def)

lemma quota_strip: "strip ''Error 503: model overloaded'' = ''Error 503: model overloaded''"
  by (simp add: strip_def lstrip_def rstrip_def isspace_def)

text \<open>
  The theorem at a service whose successful answer is \<open>Error 503: model overloaded\<close>.
\<close>

theorem error_prefix_classifies_results_witness:
  "quota_text 0 = Response (Some ''Error 503: model overloaded'') \<and>
   startswith (strip ''Error 503: model overloaded'') ''Error'' \<and>
   (\<exists>w'. handle_generate_summary (Some quota_text) applying = Inr w' \<and>
         summary (data w') = ''Error 503: model overloaded'') \<and>
   (\<exists>w'. handle_suggest_skills (\<lambda>a b. remdups (a @ b)) (Some quota_text) applying = Inr w' \<and>
         data w' = data applying) \<and>
   find_item 1 ''experience'' (data applying) =
     Some (Some (''AI and Cloud Intern'', bullets (hd (experience initial_data)))) \<and>
   (\<exists>w'. handle_refine_bullets (Some quota_text) 1 ''experience'' applying = Inr w' \<and>
         data w' = data applying) \<and>
   (\<exists>w'. handle_generate_cover_letter (Some quota_text) applying = Inr w' \<and>
         cover_letter_draft (data w') = ''Generating professional cover letter draft...'')"
proof -
  have sw: "startswith (strip ''Error 503: model overloaded'') ''Error''"
    by (simp add: quota_strip startswith_def)
  have fi: "find_item 1 ''experience'' (data applying) =
     Some (Some (''AI and Cloud Intern'', bullets (hd (experience initial_data))))"
    and ne: "bullets (hd (experience initial_data)) \<noteq> []"
    and cl: "cl_company (cover_letter_inputs (data applying)) \<noteq> []"
            "cl_title (cover_letter_inputs (data applying)) \<noteq> []"
    by (simp_all add: applying_def initial_data_def find_item_experience)
  note T = error_prefix_classifies_results [OF quota_text_facts,
      where w = applying and list_of_union = "\<lambda>a b. remdups (a @ b)" and i = 1
        and section_key = "''experience''" and item_title = "''AI and Cloud Intern''"
        and item_text = "bullets (hd (experience initial_data))"]
  have a: "\<exists>w'. handle_generate_summary (Some quota_text) applying = Inr w' \<and>
         summary (data w') = ''Error 503: model overloaded''"
    using T by (auto simp: quota_strip)
  have b: "\<exists>w'. handle_suggest_skills (\<lambda>a b. remdups (a @ b)) (Some quota_text) applying = Inr w' \<and>
         data w' = data applying"
    using T sw by auto
  have c: "\<exists>w'. handle_refine_bullets (Some quota_text) 1 ''experience'' applying = Inr w' \<and>
         data w' = data applying"
    using T sw fi ne by auto
  have d: "\<exists>w'. handle_generate_cover_letter (Some quota_text) applying = Inr w' \<and>
         cover_letter_draft (data w') = ''Generating professional cover letter draft...''"
    using T sw cl by auto
  show ?thesis using quota_text_facts(3) sw fi a b c d by blast
qed

text \<open>
  Claim C1, at two failing inputs. Without a client the generation fails before any
  request. The summary handler then replaces the summary of the initial document by the
  error text, and the cover-letter handler leaves the text
  \<open>Generating professional cover letter draft...\<close> in place of the draft that was there.
\<close>

theorem failed_generation_changes_document:
  "(\<exists>w'. handle_generate_summary None initial_world = Inr w' \<and>
         summary (data w') = ''Error: Gemini client not initialized. Check API Key configuration.'' \<and>
         data w' \<noteq> data initial_world) \<and>
   cover_letter_draft (data applying) = ''Dear hiring manager'' \<and>
   (\<exists>w'. handle_generate_cover_letter None applying = Inr w' \<and>
         cover_letter_draft (data w') = ''Generating professional cover letter draft...'' \<and>
         data w' \<noteq> data applying)"
proof -
  let ?msg = "''Error: Gemini client not initialized. Check API Key configuration.''"
  have s: "handle_generate_summary None initial_world =
             Inr (initial_world\<lparr>data := (data initial_world)\<lparr>summary := ?msg\<rparr>, ai_loading := None\<rparr>)"
    by (simp add: handle_generate_summary_def generate_content_with_ai_def Let_def)
  have s0: "summary (data initial_world) \<noteq> ?msg"
    by (simp add: initial_world_def initial_data_def)
  have s1: "(data initial_world)\<lparr>summary := ?msg\<rparr> \<noteq> data initial_world"
  proof
    assume "(data initial_world)\<lparr>summary := ?msg\<rparr> = data initial_world"
    then have "summary ((data initial_world)\<lparr>summary := ?msg\<rparr>) = summary (data initial_world)"
      by (rule arg_cong)
    then show False using s0 by simp
  qed
  let ?wait = "''Generating professional cover letter draft...''"
  have c: "handle_generate_cover_letter None applying =
             Inr (applying\<lparr>data := (data applying)\<lparr>cover_letter_draft := ?wait\<rparr>, ai_loading := None\<rparr>)"
    by (simp add: handle_generate_cover_letter_def generate_content_with_ai_def Let_def
                  applying_def startswith_def)
  have c0: "cover_letter_draft (data applying) = ''Dear hiring manager''"
    by (simp add: applying_def)
  have c1: "(data applying)\<lparr>cover_letter_draft := ?wait\<rparr> \<noteq> data applying"
  proof
    assume "(data applying)\<lparr>cover_letter_draft := ?wait\<rparr> = data applying"
    then have "cover_letter_draft ((data applying)\<lparr>cover_letter_draft := ?wait\<rparr>) =
               cover_letter_draft (data applying)"
      by (rule arg_cong)
    then show False using c0 by simp
  qed
  show ?thesis
    unfolding s c using s1 c0 c1 by simp
qed

section \<open>The compilations\<close>

lemma split_not_Nil: "split c s \<noteq> []"
  by (induction s) (auto split: list.splits)

lemma split_append_sep: "split c (a @ c # b) = split c a @ split c b"
proof (induction a)
  case Nil
  then show ?case by simp
next
  case (Cons x xs)
  obtain w ws where w: "split c xs = w # ws"
    using split_not_Nil[of c xs] by (cases "split c xs") auto
  show ?case using Cons w by simp
qed

lemma join_Cons: "xs \<noteq> [] \<Longrightarrow> join sep (x # xs) = x @ sep @ join sep xs"
  by (cases xs) auto

lemma join_append: "xs \<noteq> [] \<Longrightarrow> ys \<noteq> [] \<Longrightarrow> join sep (xs @ ys) = join sep xs @ sep @ join sep ys"
proof (induction xs)
  case Nil
  then show ?case by simp
next
  case (Cons x xs)
  show ?case
  proof (cases "xs = []")
    case True
    then show ?thesis using Cons.prems by (simp add: join_Cons)
  next
    case False
    then show ?thesis using Cons by (simp add: join_Cons)
  qed
qed

lemma split_join: "xs \<noteq> [] \<Longrightarrow> split c (join [c] xs) = concat (map (split c) xs)"
proof (induction xs)
  case Nil
  then show ?case by simp
next
  case (Cons x xs)
  show ?case
  proof (cases "xs = []")
    case True
    then show ?thesis by simp
  next
    case False
    then show ?thesis using Cons by (simp add: join_Cons split_append_sep)
  qed
qed

lemma rstrip_append:
  assumes "s \<noteq> []" "\<not> isspace (last s)"
  shows "rstrip (s @ q) = s @ rstrip q"
proof -
  have "dropWhile isspace (rev s) = rev s"
    using assms by (cases s rule: rev_cases) auto
  then show ?thesis
    by (simp add: rstrip_def dropWhile_append)
qed

lemma lstrip_id: "s \<noteq> [] \<Longrightarrow> \<not> isspace (hd s) \<Longrightarrow> lstrip (s @ q) = s @ q"
  by (cases s) (auto simp: lstrip_def)

lemma strip_append:
  assumes "s \<noteq> []" "\<not> isspace (hd s)" "\<not> isspace (last s)"
  shows "strip (s @ q) = s @ rstrip q"
  using assms by (simp add: strip_def rstrip_append lstrip_id)

lemma rstrip_Cons: "rstrip (x # q) = (if rstrip q = [] \<and> isspace x then [] else x # rstrip q)"
  by (auto simp: rstrip_def dropWhile_append)

lemma split_strip_tail:
  assumes "s \<noteq> []" "\<not> isspace (hd s)" "\<not> isspace (last s)"
  shows "\<exists>rest. split c (strip (s @ c # q)) = split c s @ rest"
proof (cases "rstrip (c # q) = []")
  case True
  then show ?thesis using assms by (simp add: strip_append)
next
  case False
  then have "rstrip (c # q) = c # rstrip q"
    by (simp add: rstrip_Cons split: if_splits)
  then show ?thesis using assms by (simp add: strip_append split_append_sep)
qed

lemma join_snoc_not_Nil: "y \<noteq> [] \<Longrightarrow> join sep (xs @ [y]) \<noteq> []"
  by (induction xs) (auto simp: join_Cons)

lemma last_join: "y \<noteq> [] \<Longrightarrow> last (join sep (xs @ [y])) = last y"
  by (induction xs) (auto simp: join_Cons join_snoc_not_Nil)

lemma hd_join: "x \<noteq> [] \<Longrightarrow> hd (join sep (x # xs)) = hd x"
  by (cases xs) auto

lemma upper_jane: "upper ''Jane Doe'' = ''JANE DOE''"
  by (simp add: upper_def upper_char_def)

lemma dashes: "replicate 20 (CHR ''-'') = ''--------------------''"
  "replicate 6 (CHR ''-'') = ''------''" "replicate 8 (CHR ''-'') = ''--------''"
  "replicate 10 (CHR ''-'') = ''----------''" "replicate 9 (CHR ''-'') = ''---------''"
  "replicate 8 (CHR ''='') = ''========''"
  by (simp_all add: numeral_eq_Suc)

lemma resume_lines_order:
  "resume_lines d = header_lines d @ section_lines d ''summary'' @ section_lines d ''skills'' @
     section_lines d ''portfolio'' @ section_lines d ''experience'' @ section_lines d ''education''"
  by (simp add: resume_lines_def SECTION_ORDER_def)

lemma not_space: "\<not> isspace (CHR ''J'')" "\<not> isspace (CHR ''-'')"
  by (simp_all add: isspace_def)

lemma section_lines_heads:
  "section_lines d ''portfolio'' = ''PROJECTS'' # ''--------'' # drop 2 (section_lines d ''portfolio'')"
  "section_lines d ''experience'' = ''EXPERIENCE'' # ''----------'' # drop 2 (section_lines d ''experience'')"
  by (simp_all add: section_lines_def dashes)

lemma section_lines_summary:
  "section_lines d ''summary'' = [''PROFESSIONAL SUMMARY'', ''--------------------'', summary d, [newline]]"
  by (simp add: section_lines_def dashes)

lemma section_lines_skills:
  "section_lines d ''skills'' =
     [''SKILLS'', ''------'', ''Technical Skills: '' @ join '', '' (skills d), [newline]]"
  by (simp add: section_lines_def dashes)

lemma section_lines_education:
  "\<exists>entries. section_lines d ''education'' = [''EDUCATION'', ''---------''] @ entries @ [[newline]]"
  by (simp add: section_lines_def dashes)

lemma split_literals:
  "split newline ''JANE DOE'' = [''JANE DOE'']"
  "split newline ''========'' = [''========'']"
  "split newline ''PROFESSIONAL SUMMARY'' = [''PROFESSIONAL SUMMARY'']"
  "split newline ''--------------------'' = [''--------------------'']"
  "split newline ''SKILLS'' = [''SKILLS'']"
  "split newline ''------'' = [''------'']"
  "split newline ''Technical Skills: Python, SQL'' = [''Technical Skills: Python, SQL'']"
  "split newline ''EDUCATION'' = [''EDUCATION'']"
  "split newline ''PROJECTS'' = [''PROJECTS'']"
  "split newline ''--------'' = [''--------'']"
  "split newline ''EXPERIENCE'' = [''EXPERIENCE'']"
  "split newline ''----------'' = [''----------'']"
  "split newline ''---------'' = [''---------'']"
  "split newline [newline] = ['''', '''']"
  "split newline [newline, newline] = ['''', '''', '''']"
  by (simp_all add: newline_def)

text \<open>
  Claim C9. For every document whose name is \<open>Jane Doe\<close> and whose skills are
  \<open>Python\<close> and \<open>SQL\<close>, the text resume, read line by line, starts with the line
  \<open>JANE DOE\<close> and contains the line \<open>Technical Skills: Python, SQL\<close>. Its lines are
  the header block (name in upper case, underline, contact lines), then the blocks of
  summary, skills, projects, experience and education in this order, each under its
  heading and underline; only what follows the education underline depends on the final
  \<open>strip()\<close>.
\<close>

theorem jane_doe_resume_text:
  assumes "name (personal d) = ''Jane Doe''" and "skills d = [''Python'', ''SQL'']"
  shows "hd (split newline (compile_resume_text d)) = ''JANE DOE'' \<and>
         ''JANE DOE'' \<in> set (split newline (compile_resume_text d)) \<and>
         ''Technical Skills: Python, SQL'' \<in> set (split newline (compile_resume_text d)) \<and>
         (\<exists>rest. split newline (compile_resume_text d) =
            [''JANE DOE'', ''========''] @
            split newline (''Email: '' @ email (personal d)) @
            split newline (''Phone: '' @ phone (personal d)) @
            split newline (''LinkedIn: '' @ linkedin (personal d)) @
            ['''', '''', ''''] @
            [''PROFESSIONAL SUMMARY'', ''--------------------''] @
            split newline (summary d) @ ['''', ''''] @
            [''SKILLS'', ''------'', ''Technical Skills: Python, SQL'', '''', ''''] @
            [''PROJECTS'', ''--------''] @
            concat (map (split newline) (drop 2 (section_lines d ''portfolio''))) @
            [''EXPERIENCE'', ''----------''] @
            concat (map (split newline) (drop 2 (section_lines d ''experience''))) @
            [''EDUCATION'', ''---------''] @ rest)"
proof -
  obtain entries where edu: "section_lines d ''education'' = [''EDUCATION'', ''---------''] @ entries @ [[newline]]"
    using section_lines_education by blast
  define front where "front = header_lines d @ section_lines d ''summary'' @ section_lines d ''skills'' @
     section_lines d ''portfolio'' @ section_lines d ''experience'' @ [''EDUCATION'']"
  define L1 where "L1 = front @ [''---------'']"
  define L2 where "L2 = entries @ [[newline]]"
  have lines: "resume_lines d = L1 @ L2"
    by (simp add: resume_lines_order edu L1_def L2_def front_def)
  have hd_front: "front = ''JANE DOE'' # tl front"
    using assms by (simp add: front_def header_lines_def upper_jane Let_def)
  define P where "P = join [newline] L1"
  have joined: "join [newline] (resume_lines d) = P @ newline # join [newline] L2"
    unfolding lines P_def by (subst join_append) (simp_all add: L1_def L2_def)
  have P1: "P \<noteq> []"
    unfolding P_def L1_def by (rule join_snoc_not_Nil) simp
  have P2: "hd P = CHR ''J''"
    unfolding P_def L1_def by (subst hd_front) (simp add: hd_join)
  have P3: "last P = CHR ''-''"
    unfolding P_def L1_def by (simp add: last_join)
  obtain rest where rest: "split newline (compile_resume_text d) = split newline P @ rest"
    using split_strip_tail[of P newline "join [newline] L2"] P1 P2 P3
    by (auto simp: compile_resume_text_def joined not_space)
  define projects where "projects = drop 2 (section_lines d ''portfolio'')"
  define experiences where "experiences = drop 2 (section_lines d ''experience'')"
  have blocks: "section_lines d ''portfolio'' = ''PROJECTS'' # ''--------'' # projects"
    "section_lines d ''experience'' = ''EXPERIENCE'' # ''----------'' # experiences"
    unfolding projects_def experiences_def by (rule section_lines_heads)+
  have header: "header_lines d =
      [''JANE DOE'', ''========'', ''Email: '' @ email (personal d), ''Phone: '' @ phone (personal d),
       ''LinkedIn: '' @ linkedin (personal d), [newline, newline]]"
    using assms(1) by (simp add: header_lines_def Let_def upper_jane numeral_eq_Suc)
  have skills_line: "''Technical Skills: '' @ join '', '' (skills d) = ''Technical Skills: Python, SQL''"
    using assms(2) by simp
  have "split newline P = concat (map (split newline) L1)"
    unfolding P_def by (rule split_join) (simp add: L1_def)
  also have "\<dots> =
            [''JANE DOE'', ''========''] @
            split newline (''Email: '' @ email (personal d)) @
            split newline (''Phone: '' @ phone (personal d)) @
            split newline (''LinkedIn: '' @ linkedin (personal d)) @
            ['''', '''', ''''] @
            [''PROFESSIONAL SUMMARY'', ''--------------------''] @
            split newline (summary d) @ ['''', ''''] @
            [''SKILLS'', ''------'', ''Technical Skills: Python, SQL'', '''', ''''] @
            [''PROJECTS'', ''--------''] @
            concat (map (split newline) projects) @
            [''EXPERIENCE'', ''----------''] @
            concat (map (split newline) experiences) @
            [''EDUCATION'', ''---------'']"
    unfolding L1_def front_def header section_lines_summary section_lines_skills skills_line blocks
    by (simp add: split_literals del: split.simps)
  finally have P_lines: "split newline P = [''JANE DOE'', ''========''] @
            split newline (''Email: '' @ email (personal d)) @
            split newline (''Phone: '' @ phone (personal d)) @
            split newline (''LinkedIn: '' @ linkedin (personal d)) @
            ['''', '''', ''''] @
            [''PROFESSIONAL SUMMARY'', ''--------------------''] @
            split newline (summary d) @ ['''', ''''] @
            [''SKILLS'', ''------'', ''Technical Skills: Python, SQL'', '''', ''''] @
            [''PROJECTS'', ''--------''] @
            concat (map (split newline) projects) @
            [''EXPERIENCE'', ''----------''] @
            concat (map (split newline) experiences) @
            [''EDUCATION'', ''---------'']" .
  show ?thesis
    unfolding rest P_lines projects_def experiences_def by simp
qed

text \<open>
  The theorem at the initial document with the name and the skills replaced.
\<close>

theorem jane_doe_resume_text_witness:
  "name (personal jane) = ''Jane Doe'' \<and> skills jane = [''Python'', ''SQL''] \<and>
   hd (split newline (compile_resume_text jane)) = ''JANE DOE'' \<and>
   ''JANE DOE'' \<in> set (split newline (compile_resume_text jane)) \<and>
   ''Technical Skills: Python, SQL'' \<in> set (split newline (compile_resume_text jane))"
proof -
  have h: "name (personal jane) = ''Jane Doe''" "skills jane = [''Python'', ''SQL'']"
    by (simp_all add: jane_def)
  show ?thesis
    using jane_doe_resume_text [OF h] h by blast
qed

subsection \<open>What the compilations show of the document\<close>

lemma startswith_iff_prefix: "startswith s p \<longleftrightarrow> prefix p s"
proof
  assume "startswith s p"
  then have "s = p @ drop (length p) s"
    by (metis append_take_drop_id startswith_def)
  then show "prefix p s" by (metis prefixI)
next
  assume "prefix p s"
  then show "startswith s p" by (auto simp: prefix_def startswith_def)
qed

lemma contains_iff_sublist: "contains sub s \<longleftrightarrow> sublist sub s"
  by (induction s) (simp_all add: startswith_iff_prefix sublist_Cons_right)

lemma sub_here: "sublist s (s @ r)"
  by simp

lemma sub_skip: "sublist s r \<Longrightarrow> sublist s (a @ r)"
  by (auto simp: sublist_def) (metis append.assoc)

lemma sub_skip_char: "sublist s r \<Longrightarrow> sublist s (c # r)"
  using sub_skip[of s r "[c]"] by simp

lemma sub_trans: "sublist a b \<Longrightarrow> sublist b c \<Longrightarrow> sublist a c"
  by (auto simp: sublist_def) (metis append.assoc)

lemma sub_concat_map: "x \<in> set xs \<Longrightarrow> sublist (f x) (concat (map f xs))"
  by (auto dest!: split_list)

lemma portfolio_shows_personal:
  "sublist (name (personal d)) (portfolio_html d)"
  "sublist (email (personal d)) (portfolio_html d)"
  "sublist (linkedin (personal d)) (portfolio_html d)"
  "sublist (summary d) (portfolio_html d)"
  "sublist (concat (map skill_badge (skills d))) (portfolio_html d)"
  "sublist (concat (map project_card (portfolio d))) (portfolio_html d)"
  "sublist (concat (map education_card (education d))) (portfolio_html d)"
  unfolding portfolio_html_def
  by (rule sub_here | rule sub_skip | rule sub_skip_char)+

lemma card_shows:
  "sublist skill (skill_badge skill)"
  "sublist (proj_name proj) (project_card proj)"
  "sublist (description proj) (project_card proj)"
  "sublist (link proj) (project_card proj)"
  "sublist (degree edu) (education_card edu)"
  "sublist (edu_dates edu) (education_card edu)"
  "sublist (institution edu) (education_card edu)"
  unfolding skill_badge_def project_card_def education_card_def
  by (rule sub_here | rule sub_skip | rule sub_skip_char)+

lemma portfolio_shows_document:
  assumes "s \<in> set (shown_in_portfolio d)"
  shows "sublist s (portfolio_html d)"
proof -
  consider (personal) "s \<in> {name (personal d), email (personal d), linkedin (personal d), summary d}"
    | (skill) "s \<in> set (skills d)"
    | (proj) proj where "proj \<in> set (portfolio d)" "s \<in> {proj_name proj, description proj, link proj}"
    | (edu) edu where "edu \<in> set (education d)" "s \<in> {degree edu, edu_dates edu, institution edu}"
    using assms by (auto simp: shown_in_portfolio_def)
  then show ?thesis
  proof cases
    case personal
    then show ?thesis using portfolio_shows_personal(1-4) by auto
  next
    case skill
    from sub_concat_map[OF this, of skill_badge] show ?thesis
      by (blast intro: sub_trans card_shows(1) portfolio_shows_personal(5))
  next
    case proj
    from sub_concat_map[OF proj(1), of project_card] have "sublist (project_card proj) (portfolio_html d)"
      by (blast intro: sub_trans portfolio_shows_personal(6))
    then show ?thesis using proj(2) card_shows(2-4)[of proj] by (auto intro: sub_trans)
  next
    case edu
    from sub_concat_map[OF edu(1), of education_card] have "sublist (education_card edu) (portfolio_html d)"
      by (blast intro: sub_trans portfolio_shows_personal(7))
    then show ?thesis using edu(2) card_shows(5-7)[of edu] by (auto intro: sub_trans)
  qed
qed

lemma sub_refl: "sublist s s"
  by simp

lemma concat_preview_markup:
  "concat (preview_markup w) =
     header_html (theme w) (data w) @
     format_resume_section (theme w) ''summary'' (data w) @
     format_resume_section (theme w) ''skills'' (data w) @
     format_resume_section (theme w) ''portfolio'' (data w) @
     format_resume_section (theme w) ''experience'' (data w) @
     format_resume_section (theme w) ''education'' (data w)"
  by (simp add: preview_markup_def SECTION_ORDER_def)

lemma preview_pieces:
  "sublist (header_html (theme w) (data w)) (concat (preview_markup w))"
  "sublist (format_resume_section (theme w) ''summary'' (data w)) (concat (preview_markup w))"
  "sublist (format_resume_section (theme w) ''skills'' (data w)) (concat (preview_markup w))"
  "sublist (format_resume_section (theme w) ''portfolio'' (data w)) (concat (preview_markup w))"
  "sublist (format_resume_section (theme w) ''experience'' (data w)) (concat (preview_markup w))"
  "sublist (format_resume_section (theme w) ''education'' (data w)) (concat (preview_markup w))"
  unfolding concat_preview_markup
  by (rule sub_here | rule sub_skip | rule sub_refl)+

lemma header_shows:
  "sublist (name (personal d)) (header_html th d)"
  "sublist (email (personal d)) (header_html th d)"
  "sublist (phone (personal d)) (header_html th d)"
  "sublist (linkedin (personal d)) (header_html th d)"
  "sublist (BG_COLOR th) (header_html th d)"
  "sublist (TEXT_COLOR th) (header_html th d)"
  "sublist (ACCENT_COLOR th) (header_html th d)"
  "sublist (SUB_TEXT_COLOR th) (header_html th d)"
  unfolding header_html_def
  by (rule sub_here | rule sub_skip | rule sub_skip_char)+

lemma sections_show:
  "sublist (BORDER_COLOR th) (format_resume_section th ''summary'' d)"
  "sublist (summary d) (format_resume_section th ''summary'' d)"
  "sublist (join '', '' (skills d)) (format_resume_section th ''skills'' d)"
  "sublist (concat (map (preview_project th) (portfolio d))) (format_resume_section th ''portfolio'' d)"
  "sublist (concat (map (preview_experience th) (experience d))) (format_resume_section th ''experience'' d)"
  "sublist (concat (map (preview_education th) (education d))) (format_resume_section th ''education'' d)"
  by (simp_all add: format_resume_section_def del: sublist_appendI sublist_append_leftI sublist_append_rightI)
     ((rule sub_here | rule sub_skip | rule sub_skip_char)+)+

lemma entries_show:
  "sublist (link proj) (preview_project th proj)"
  "sublist (proj_name proj) (preview_project th proj)"
  "sublist (description proj) (preview_project th proj)"
  "sublist (title entry) (preview_experience th entry)"
  "sublist (exp_dates entry) (preview_experience th entry)"
  "sublist (company entry) (preview_experience th entry)"
  "sublist (bullet_list_items entry) (preview_experience th entry)"
  "sublist (degree edu) (preview_education th edu)"
  "sublist (edu_dates edu) (preview_education th edu)"
  "sublist (institution edu) (preview_education th edu)"
  unfolding preview_project_def preview_experience_def preview_education_def
  by (rule sub_here | rule sub_skip | rule sub_skip_char)+

lemma bullets_show:
  assumes "s \<in> set (bullet_lines entry)"
  shows "sublist s (bullet_list_items entry)"
proof -
  from assms obtain bullet where b: "bullet \<in> set (filter (\<lambda>bullet. strip bullet \<noteq> []) (split newline (bullets entry)))"
    and s: "s = strip bullet"
    by (auto simp: bullet_lines_def)
  have "sublist (''<li>'' @ strip bullet @ ''</li>'') (bullet_list_items entry)"
    unfolding bullet_list_items_def by (rule sub_concat_map[OF b])
  moreover have "sublist s (''<li>'' @ strip bullet @ ''</li>'')"
    unfolding s by (rule sub_here | rule sub_skip | rule sub_skip_char)+
  ultimately show ?thesis by (blast intro: sub_trans)
qed

lemma preview_shows_document:
  assumes "s \<in> set (shown_in_preview (data w) @ theme_colours (theme w))"
  shows "sublist s (concat (preview_markup w))"
proof -
  let ?th = "theme w" and ?d = "data w"
  consider (header) "sublist s (header_html ?th ?d)"
    | (simple) key where "key \<in> {''summary'', ''skills''}" "sublist s (format_resume_section ?th key ?d)"
    | (proj) proj where "proj \<in> set (portfolio ?d)" "sublist s (preview_project ?th proj)"
    | (exp) entry where "entry \<in> set (experience ?d)" "sublist s (preview_experience ?th entry)"
    | (edu) edu where "edu \<in> set (education ?d)" "sublist s (preview_education ?th edu)"
  proof -
    from assms consider
        "s \<in> {name (personal ?d), email (personal ?d), phone (personal ?d), linkedin (personal ?d),
               BG_COLOR ?th, TEXT_COLOR ?th, ACCENT_COLOR ?th, SUB_TEXT_COLOR ?th}"
      | "s = BORDER_COLOR ?th \<or> s = summary ?d" | "s = join '', '' (skills ?d)"
      | proj where "proj \<in> set (portfolio ?d)" "s \<in> {link proj, proj_name proj, description proj}"
      | entry where "entry \<in> set (experience ?d)"
          "s \<in> {title entry, exp_dates entry, company entry} \<or> s \<in> set (bullet_lines entry)"
      | edu where "edu \<in> set (education ?d)" "s \<in> {degree edu, edu_dates edu, institution edu}"
      by (auto simp: shown_in_preview_def theme_colours_def)
    then show ?thesis
    proof cases
      case 1
      then show ?thesis using header_shows by (intro header) auto
    next
      case 2
      then show ?thesis using sections_show(1,2) by (intro simple[of "''summary''"]) auto
    next
      case 3
      then show ?thesis using sections_show(3) by (intro simple[of "''skills''"]) auto
    next
      case (4 proj)
      then show ?thesis using entries_show(1-3) by (intro proj[of proj]) auto
    next
      case (5 entry)
      then show ?thesis
        using entries_show(4-6) sub_trans[OF bullets_show entries_show(7)]
        by (intro exp[of entry]) auto
    next
      case (6 edu)
      then show ?thesis using entries_show(8-10) by (intro edu[of edu]) auto
    qed
  qed
  then show ?thesis
  proof cases
    case header
    then show ?thesis using preview_pieces(1) by (blast intro: sub_trans)
  next
    case simple
    then show ?thesis using preview_pieces(2,3) by (auto intro: sub_trans)
  next
    case (proj proj)
    from sub_concat_map[OF proj(1), of "preview_project ?th"] show ?thesis
      using proj(2) sections_show(4) preview_pieces(4) by (blast intro: sub_trans)
  next
    case (exp entry)
    from sub_concat_map[OF exp(1), of "preview_experience ?th"] show ?thesis
      using exp(2) sections_show(5) preview_pieces(5) by (blast intro: sub_trans)
  next
    case (edu edu)
    from sub_concat_map[OF edu(1), of "preview_education ?th"] show ?thesis
      using edu(2) sections_show(6) preview_pieces(6) by (blast intro: sub_trans)
  qed
qed

lemma strip_middle:
  assumes "K \<noteq> []" "\<not> isspace (hd K)" "\<not> isspace (last K)"
  shows "strip (A @ K @ C) = lstrip A @ K @ rstrip C"
proof -
  have "rstrip ((A @ K) @ C) = (A @ K) @ rstrip C"
    using assms by (intro rstrip_append) auto
  then have r: "rstrip (A @ K @ C) = A @ K @ rstrip C" by simp
  have "dropWhile isspace (K @ rstrip C) = K @ rstrip C"
    using assms(1,2) by (cases K) auto
  then have "lstrip (A @ K @ rstrip C) = lstrip A @ K @ rstrip C"
    by (auto simp: lstrip_def dropWhile_append)
  then show ?thesis by (simp add: strip_def r)
qed

lemma sub_lstrip: "sublist (lstrip u) (lstrip (u @ x))"
proof (cases "\<forall>c\<in>set u. isspace c")
  case True
  then have e: "dropWhile isspace u = []" by simp
  show ?thesis unfolding lstrip_def e by (rule sublist_Nil_left)
next
  case False
  then show ?thesis by (auto simp: lstrip_def dropWhile_append)
qed

lemma rstrip_decomp: "\<exists>t. a = rstrip a @ t"
proof -
  have "rev a = takeWhile isspace (rev a) @ dropWhile isspace (rev a)" by simp
  then have "a = rev (dropWhile isspace (rev a)) @ rev (takeWhile isspace (rev a))"
    by (metis rev_append rev_rev_ident)
  then show ?thesis unfolding rstrip_def by blast
qed

lemma last_rstrip: "rstrip a \<noteq> [] \<Longrightarrow> \<not> isspace (last (rstrip a))"
  unfolding rstrip_def by (simp add: last_rev hd_dropWhile)

lemma sub_rstrip: "sublist (rstrip a) (rstrip (p @ a @ z))"
proof (cases "rstrip a = []")
  case True
  then show ?thesis by simp
next
  case False
  obtain t where t: "a = rstrip a @ t" using rstrip_decomp by blast
  have "rstrip ((p @ rstrip a) @ (t @ z)) = (p @ rstrip a) @ rstrip (t @ z)"
    using False last_rstrip[OF False] by (intro rstrip_append) auto
  moreover have "p @ a @ z = (p @ rstrip a) @ (t @ z)"
    using t by (metis append.assoc)
  then have "rstrip (p @ a @ z) = rstrip ((p @ rstrip a) @ (t @ z))"
    by (rule arg_cong)
  ultimately have "rstrip (p @ a @ z) = p @ (rstrip a @ rstrip (t @ z))"
    by (simp only: append_assoc)
  then show ?thesis by (simp only: sublist_appendI)
qed

lemma sub_join: "l \<in> set ls \<Longrightarrow> sublist l (join sep ls)"
proof (induction ls)
  case Nil
  then show ?case by simp
next
  case (Cons x xs)
  show ?case
  proof (cases "xs = []")
    case True
    then show ?thesis using Cons.prems by simp
  next
    case False
    then have j: "join sep (x # xs) = x @ sep @ join sep xs" by (rule join_Cons)
    show ?thesis
    proof (cases "l = x")
      case True
      then show ?thesis unfolding j by (rule sub_here[of x, folded True] | simp)+
    next
      case False
      then have "sublist l (join sep xs)" using Cons by simp
      then show ?thesis unfolding j by (intro sub_skip)
    qed
  qed
qed

lemma join_mid:
  assumes "rest \<noteq> []"
  shows "\<exists>X. sep @ join sep (before @ l1 # l2 # rest) = X @ l1 @ sep @ l2 @ sep @ join sep rest"
proof (cases "before = []")
  case True
  then show ?thesis using assms by (intro exI[of _ sep]) (simp add: join_Cons)
next
  case False
  have "join sep (before @ (l1 # l2 # rest)) = join sep before @ sep @ join sep (l1 # l2 # rest)"
    using False by (intro join_append) auto
  then show ?thesis
    using assms by (intro exI[of _ "sep @ join sep before @ sep"]) (simp add: join_Cons)
qed

lemma section_lines_education_eq:
  "section_lines d ''education'' =
     [''EDUCATION'', ''---------''] @
     concat (map (\<lambda>edu. [degree edu @ '', '' @ institution edu, ''  Dates: '' @ edu_dates edu])
               (education d)) @
     [[newline]]"
  by (simp add: section_lines_def dashes)

lemma portfolio_lines_in:
  assumes "proj \<in> set (portfolio d)"
  shows "proj_name proj @ '' ('' @ link proj @ '')'' \<in> set (section_lines d ''portfolio'')"
    and "''  - '' @ description proj \<in> set (section_lines d ''portfolio'')"
  using assms by (force simp: section_lines_def)+

lemma experience_lines_in:
  assumes "entry \<in> set (experience d)"
  shows "title entry @ '', '' @ company entry \<in> set (section_lines d ''experience'')"
    and "''  Dates: '' @ exp_dates entry \<in> set (section_lines d ''experience'')"
    and "b \<in> set (bullet_lines entry) \<Longrightarrow> ''  - '' @ b \<in> set (section_lines d ''experience'')"
  using assms by (force simp: section_lines_def bullet_lines_def)+

lemma not_space_more: "\<not> isspace (CHR ''E'')" "\<not> isspace (CHR '':'')"
  by (simp_all add: isspace_def)

lemma education_shows:
  assumes "edu \<in> set (education d)"
  defines "E \<equiv> concat (map (\<lambda>edu. [degree edu @ '', '' @ institution edu, ''  Dates: '' @ edu_dates edu])
                           (education d))"
  shows "sublist (degree edu @ '', '' @ institution edu) (rstrip ([newline] @ join [newline] (E @ [[newline]])))"
    and "sublist (rstrip (edu_dates edu)) (rstrip ([newline] @ join [newline] (E @ [[newline]])))"
proof -
  let ?f = "\<lambda>edu. [degree edu @ '', '' @ institution edu, ''  Dates: '' @ edu_dates edu]"
  let ?l1 = "degree edu @ '', '' @ institution edu"
  from assms(1) obtain es1 es2 where es: "education d = es1 @ edu # es2"
    by (auto dest: split_list)
  define rest where "rest = concat (map ?f es2) @ [[newline]]"
  have E: "E @ [[newline]] = concat (map ?f es1) @ ?l1 # (''  Dates: '' @ edu_dates edu) # rest"
    by (simp add: E_def es rest_def)
  have "rest \<noteq> []" by (simp add: rest_def)
  from join_mid[OF this, of "[newline]" "concat (map ?f es1)" ?l1 "''  Dates: '' @ edu_dates edu"]
  obtain X where "[newline] @ join [newline] (E @ [[newline]]) =
      X @ ?l1 @ [newline] @ (''  Dates: '' @ edu_dates edu) @ [newline] @ join [newline] rest"
    unfolding E by blast
  then have C: "[newline] @ join [newline] (E @ [[newline]]) =
      (X @ ?l1 @ [newline] @ ''  Dates:'') @ ('' '' @ edu_dates edu @ ([newline] @ join [newline] rest))"
    by simp
  have r: "rstrip ([newline] @ join [newline] (E @ [[newline]])) =
      (X @ ?l1 @ [newline] @ ''  Dates:'') @ rstrip ('' '' @ edu_dates edu @ ([newline] @ join [newline] rest))"
    unfolding C by (rule rstrip_append) (simp_all add: not_space_more)
  show "sublist ?l1 (rstrip ([newline] @ join [newline] (E @ [[newline]])))"
    unfolding r by (rule sub_trans[OF sublist_appendI sub_here])
  have "sublist (rstrip (edu_dates edu))
          (rstrip ('' '' @ edu_dates edu @ ([newline] @ join [newline] rest)))"
    by (rule sub_rstrip)
  then show "sublist (rstrip (edu_dates edu)) (rstrip ([newline] @ join [newline] (E @ [[newline]])))"
    unfolding r by (rule sub_skip)
qed

lemma text_shows_document:
  assumes "s \<in> set (shown_in_text d)"
  shows "sublist s (compile_resume_text d)"
proof -
  define U where "U = upper (name (personal d))"
  define eqs where "eqs = replicate (length (name (personal d))) (CHR ''='')"
  define front where "front =
     [''Email: '' @ email (personal d), ''Phone: '' @ phone (personal d),
      ''LinkedIn: '' @ linkedin (personal d), replicate 2 newline] @
     section_lines d ''summary'' @ section_lines d ''skills'' @
     section_lines d ''portfolio'' @ section_lines d ''experience'' @ [''EDUCATION'']"
  define Lmid where "Lmid = front @ [''---------'']"
  define E where "E = concat (map (\<lambda>edu. [degree edu @ '', '' @ institution edu, ''  Dates: '' @ edu_dates edu])
                           (education d))"
  define A where "A = join [newline] [U, eqs] @ [newline]"
  define K where "K = join [newline] Lmid"
  define C where "C = [newline] @ join [newline] (E @ [[newline]])"
  have lines: "resume_lines d = [U, eqs] @ Lmid @ (E @ [[newline]])"
    by (simp add: resume_lines_order header_lines_def Let_def section_lines_education_eq
                  U_def eqs_def Lmid_def front_def E_def)
  have "join [newline] (resume_lines d) =
          join [newline] [U, eqs] @ [newline] @ join [newline] (Lmid @ (E @ [[newline]]))"
    unfolding lines by (rule join_append) (simp_all add: Lmid_def)
  also have "join [newline] (Lmid @ (E @ [[newline]])) = K @ [newline] @ join [newline] (E @ [[newline]])"
    unfolding K_def by (rule join_append) (simp_all add: Lmid_def)
  finally have J: "join [newline] (resume_lines d) = A @ K @ C"
    by (simp add: A_def C_def)
  have K1: "K \<noteq> []"
    unfolding K_def Lmid_def by (rule join_snoc_not_Nil) simp
  have K2: "hd K = CHR ''E''"
    unfolding K_def Lmid_def front_def by (simp add: hd_join)
  have K3: "last K = CHR ''-''"
    unfolding K_def Lmid_def by (simp add: last_join)
  have out: "compile_resume_text d = lstrip A @ K @ rstrip C"
    unfolding compile_resume_text_def J using K1 K2 K3 by (intro strip_middle) (simp_all add: not_space not_space_more)
  have in_K: "sublist s K" if "l \<in> set Lmid" "sublist s l" for l
    using sub_join[OF that(1), of "[newline]"] that(2) unfolding K_def by (blast intro: sub_trans)
  have in_out: "sublist s (compile_resume_text d)"
    if "sublist s (lstrip A) \<or> sublist s K \<or> sublist s (rstrip C)"
    using that unfolding out
    by (auto intro: sub_trans[OF _ sub_here] sub_trans[OF _ sub_skip[OF sub_here]]
                    sub_trans[OF _ sub_skip[OF sub_skip[OF sub_refl]]])
  from assms consider
      (name) "s = lstrip U"
    | (personal) "s \<in> {email (personal d), phone (personal d), linkedin (personal d)}"
    | (summary) "s = summary d" | (skills) "s = join '', '' (skills d)"
    | (proj) proj where "proj \<in> set (portfolio d)" "s \<in> {proj_name proj, link proj, description proj}"
    | (exp) entry where "entry \<in> set (experience d)"
        "s \<in> {title entry, company entry, exp_dates entry} \<or> s \<in> set (bullet_lines entry)"
    | (edu) edu where "edu \<in> set (education d)" "s \<in> {degree edu, institution edu, rstrip (edu_dates edu)}"
    by (auto simp: shown_in_text_def U_def)
  then show ?thesis
  proof cases
    case name
    have "sublist (lstrip U) (lstrip (U @ ([newline] @ eqs @ [newline])))"
      by (rule sub_lstrip)
    then show ?thesis using name by (intro in_out) (simp add: A_def)
  next
    case personal
    have "sublist (email (personal d)) (''Email: '' @ email (personal d))"
      "sublist (phone (personal d)) (''Phone: '' @ phone (personal d))"
      "sublist (linkedin (personal d)) (''LinkedIn: '' @ linkedin (personal d))"
      by (rule sub_here | rule sub_skip | rule sub_refl)+
    then have "sublist s K"
      using personal
      in_K[of "''Email: '' @ email (personal d)"] in_K[of "''Phone: '' @ phone (personal d)"]
      in_K[of "''LinkedIn: '' @ linkedin (personal d)"]
      by (auto simp: Lmid_def front_def)
    then show ?thesis by (intro in_out) simp
  next
    case summary
    have "sublist s K"
      by (rule in_K[of "summary d"]) (simp_all add: summary Lmid_def front_def section_lines_summary)
    then show ?thesis by (intro in_out) simp
  next
    case skills
    have "sublist s (''Technical Skills: '' @ join '', '' (skills d))"
      unfolding skills by (rule sub_here | rule sub_skip | rule sub_refl)+
    moreover have "''Technical Skills: '' @ join '', '' (skills d) \<in> set Lmid"
      by (simp add: Lmid_def front_def section_lines_skills)
    ultimately have "sublist s K"
      using in_K by blast
    then show ?thesis by (intro in_out) simp
  next
    case (proj proj)
    have m: "proj_name proj @ '' ('' @ link proj @ '')'' \<in> set Lmid" "''  - '' @ description proj \<in> set Lmid"
      using portfolio_lines_in[OF proj(1)] by (simp_all add: Lmid_def front_def)
    have "sublist (proj_name proj) (proj_name proj @ '' ('' @ link proj @ '')'')"
      "sublist (link proj) (proj_name proj @ '' ('' @ link proj @ '')'')"
      "sublist (description proj) (''  - '' @ description proj)"
      by (rule sub_here | rule sub_skip | rule sub_refl)+
    then have "sublist s K"
      using proj(2) in_K[OF m(1)] in_K[OF m(2)] by auto
    then show ?thesis by (intro in_out) simp
  next
    case (exp entry)
    have m: "title entry @ '', '' @ company entry \<in> set Lmid" "''  Dates: '' @ exp_dates entry \<in> set Lmid"
      "\<And>b. b \<in> set (bullet_lines entry) \<Longrightarrow> ''  - '' @ b \<in> set Lmid"
      using experience_lines_in[OF exp(1)] by (simp_all add: Lmid_def front_def)
    have "sublist (title entry) (title entry @ '', '' @ company entry)"
      "sublist (company entry) (title entry @ '', '' @ company entry)"
      "sublist (exp_dates entry) (''  Dates: '' @ exp_dates entry)"
      "sublist s (''  - '' @ s)"
      by (rule sub_here | rule sub_skip | rule sub_refl)+
    then have "sublist s K"
      using exp(2) in_K[OF m(1)] in_K[OF m(2)] in_K[OF m(3), of s] by auto
    then show ?thesis by (intro in_out) simp
  next
    case (edu edu)
    note sh = education_shows[OF edu(1), folded E_def C_def]
    have "sublist (degree edu) (degree edu @ '', '' @ institution edu)"
      "sublist (institution edu) (degree edu @ '', '' @ institution edu)"
      by (rule sub_here | rule sub_skip | rule sub_refl)+
    then have "sublist s (rstrip C)"
      using edu(2) sh by (auto intro: sub_trans)
    then show ?thesis by (intro in_out) simp
  qed
qed

text \<open>
  Claim C8. Each compilation is a function of the document (and, for the preview, of the
  theme) alone: two session states with the same document give the same text resume and
  the same portfolio page, and with the same theme the same preview markup, whatever
  the in-flight marker, the earlier page or the messages are. No compilation changes
  the document or the theme, so compiling again gives the same output, and each leaves
  the output of the others as it is. After the document is replaced by \<open>d\<close>, every
  text that a compilation shows of \<open>d\<close> occurs in its output: the text resume, the six
  pieces of preview markup (which also carry the five colours of the theme) and the
  portfolio page. The portfolio page does not depend on the experience entries or the
  cover letter, and the text resume does not depend on the cover letter.
\<close>

theorem compilations_reflect_document_and_theme:
  "(data w = data w' \<longrightarrow>
      compile_resume_text (data w) = compile_resume_text (data w') \<and>
      generated_html (generate_portfolio_html w) = generated_html (generate_portfolio_html w')) \<and>
   (data w = data w' \<longrightarrow> theme w = theme w' \<longrightarrow> preview_markup w = preview_markup w') \<and>
   data (generate_portfolio_html w) = data w \<and> theme (generate_portfolio_html w) = theme w \<and>
   data (render_preview w) = data w \<and> theme (render_preview w) = theme w \<and>
   ui_log (render_preview w) = ui_log w @ map Markdown (preview_markup w) \<and>
   preview_markup (render_preview w) = preview_markup w \<and>
   preview_markup (generate_portfolio_html w) = preview_markup w \<and>
   generate_portfolio_html (generate_portfolio_html w) = generate_portfolio_html w \<and>
   generated_html (generate_portfolio_html (render_preview w)) = generated_html (generate_portfolio_html w) \<and>
   (\<forall>s\<in>set (shown_in_text d). contains s (compile_resume_text (data (w\<lparr>data := d\<rparr>)))) \<and>
   (\<forall>s\<in>set (shown_in_preview d @ theme_colours th).
      contains s (concat (preview_markup (w\<lparr>data := d, theme := th\<rparr>)))) \<and>
   (\<forall>s\<in>set (shown_in_portfolio d).
      contains s (generated_html (generate_portfolio_html (w\<lparr>data := d\<rparr>)))) \<and>
   length (preview_markup w) = 6 \<and>
   portfolio_html (d\<lparr>experience := xs, cover_letter_inputs := ci, cover_letter_draft := cd\<rparr>) =
     portfolio_html d \<and>
   compile_resume_text (d\<lparr>cover_letter_inputs := ci, cover_letter_draft := cd\<rparr>) =
     compile_resume_text d"
proof -
  have frame:
    "(data w = data w' \<longrightarrow>
        compile_resume_text (data w) = compile_resume_text (data w') \<and>
        generated_html (generate_portfolio_html w) = generated_html (generate_portfolio_html w')) \<and>
     (data w = data w' \<longrightarrow> theme w = theme w' \<longrightarrow> preview_markup w = preview_markup w') \<and>
     data (generate_portfolio_html w) = data w \<and> theme (generate_portfolio_html w) = theme w \<and>
     data (render_preview w) = data w \<and> theme (render_preview w) = theme w \<and>
     ui_log (render_preview w) = ui_log w @ map Markdown (preview_markup w) \<and>
     preview_markup (render_preview w) = preview_markup w \<and>
     preview_markup (generate_portfolio_html w) = preview_markup w \<and>
     generate_portfolio_html (generate_portfolio_html w) = generate_portfolio_html w \<and>
     generated_html (generate_portfolio_html (render_preview w)) = generated_html (generate_portfolio_html w)"
    by (simp add: generate_portfolio_html_def render_preview_def preview_markup_def)
  have resume: "\<forall>s\<in>set (shown_in_text d). contains s (compile_resume_text (data (w\<lparr>data := d\<rparr>)))"
    by (simp add: contains_iff_sublist text_shows_document)
  have preview: "\<forall>s\<in>set (shown_in_preview d @ theme_colours th).
      contains s (concat (preview_markup (w\<lparr>data := d, theme := th\<rparr>)))"
  proof
    fix s assume "s \<in> set (shown_in_preview d @ theme_colours th)"
    then have "s \<in> set (shown_in_preview (data (w\<lparr>data := d, theme := th\<rparr>)) @
                         theme_colours (theme (w\<lparr>data := d, theme := th\<rparr>)))"
      by simp
    then show "contains s (concat (preview_markup (w\<lparr>data := d, theme := th\<rparr>)))"
      unfolding contains_iff_sublist by (rule preview_shows_document)
  qed
  have page: "\<forall>s\<in>set (shown_in_portfolio d).
      contains s (generated_html (generate_portfolio_html (w\<lparr>data := d\<rparr>)))"
    by (simp add: contains_iff_sublist generate_portfolio_html_def portfolio_shows_document)
  have len: "length (preview_markup w) = 6"
    by (simp add: preview_markup_def SECTION_ORDER_def)
  have ignore1: "portfolio_html (d\<lparr>experience := xs, cover_letter_inputs := ci, cover_letter_draft := cd\<rparr>) =
     portfolio_html d"
    by (simp add: portfolio_html_def)
  have ignore2: "compile_resume_text (d\<lparr>cover_letter_inputs := ci, cover_letter_draft := cd\<rparr>) =
     compile_resume_text d"
  proof -
    let ?d = "d\<lparr>cover_letter_inputs := ci, cover_letter_draft := cd\<rparr>"
    have "section_lines ?d = section_lines d"
      by (rule ext) (simp add: section_lines_def)
    moreover have "header_lines ?d = header_lines d"
      by (simp add: header_lines_def)
    ultimately show ?thesis
      by (simp add: compile_resume_text_def resume_lines_def)
  qed
  show ?thesis
    using frame resume preview page len ignore1 ignore2 by blast
qed

lemma jane_shown:
  "''JANE DOE'' \<in> set (shown_in_text jane)"
  "''jane@example.com'' \<in> set (shown_in_text jane)"
  "''Python, SQL'' \<in> set (shown_in_text jane)"
  "''Jane Doe'' \<in> set (shown_in_preview jane @ theme_colours ''dark'')"
  "''#1f2937'' \<in> set (shown_in_preview jane @ theme_colours ''dark'')"
  "''Jane Doe'' \<in> set (shown_in_portfolio jane)"
  "''SQL'' \<in> set (shown_in_portfolio jane)"
  by (simp_all add: shown_in_text_def shown_in_preview_def shown_in_portfolio_def theme_colours_def
                    jane_def upper_jane lstrip_def isspace_def BG_COLOR_def)

text \<open>
  The theorem at two session states that differ in everything but document and theme,
  and at the document of Jane Doe with the dark theme.
\<close>

theorem compilations_reflect_document_and_theme_witness:
  "data initial_world = data busy \<and> theme initial_world = theme busy \<and>
   ai_loading initial_world \<noteq> ai_loading busy \<and>
   generated_html initial_world \<noteq> generated_html busy \<and>
   compile_resume_text (data initial_world) = compile_resume_text (data busy) \<and>
   generated_html (generate_portfolio_html initial_world) = generated_html (generate_portfolio_html busy) \<and>
   preview_markup initial_world = preview_markup busy \<and>
   contains ''JANE DOE'' (compile_resume_text (data (busy\<lparr>data := jane\<rparr>))) \<and>
   contains ''jane@example.com'' (compile_resume_text (data (busy\<lparr>data := jane\<rparr>))) \<and>
   contains ''Python, SQL'' (compile_resume_text (data (busy\<lparr>data := jane\<rparr>))) \<and>
   contains ''Jane Doe'' (concat (preview_markup (busy\<lparr>data := jane, theme := ''dark''\<rparr>))) \<and>
   contains ''#1f2937'' (concat (preview_markup (busy\<lparr>data := jane, theme := ''dark''\<rparr>))) \<and>
   contains ''Jane Doe'' (generated_html (generate_portfolio_html (busy\<lparr>data := jane\<rparr>))) \<and>
   contains ''SQL'' (generated_html (generate_portfolio_html (busy\<lparr>data := jane\<rparr>)))"
proof -
  have h: "data initial_world = data busy" "theme initial_world = theme busy"
    by (simp_all add: busy_def)
  have d: "ai_loading initial_world \<noteq> ai_loading busy" "generated_html initial_world \<noteq> generated_html busy"
    by (simp_all add: busy_def initial_world_def)
  note T1 = compilations_reflect_document_and_theme
    [where w = initial_world and w' = busy and d = jane and th = "''dark''"]
  note T2 = compilations_reflect_document_and_theme
    [where w = busy and w' = busy and d = jane and th = "''dark''"]
  show ?thesis
    using T1 T2 h d jane_shown by blast
qed

section \<open>Entry ids\<close>

lemma distinct_pop: "distinct ys \<Longrightarrow> distinct (take i ys @ drop (Suc i) ys)"
proof (induction ys arbitrary: i)
  case Nil
  then show ?case by simp
next
  case (Cons y ys)
  show ?case
  proof (cases i)
    case 0
    then show ?thesis using Cons.prems by simp
  next
    case (Suc j)
    then show ?thesis
      using Cons.prems Cons.IH[of j] by (auto dest: in_set_takeD in_set_dropD)
  qed
qed

lemma distinct_map_pop:
  assumes "distinct (map f xs)"
  shows "distinct (map f (take i xs @ drop (Suc i) xs))"
  using distinct_pop[OF assms, of i] by (simp add: take_map drop_map)

lemma list_all_pop: "list_all P xs \<Longrightarrow> list_all P (take i xs @ drop (Suc i) xs)"
  by (auto simp: list_all_iff dest: in_set_takeD in_set_dropD)

lemma fresh_id:
  fixes f :: "'a \<Rightarrow> real"
  assumes "list_all (\<lambda>x. f x \<le> b) xs" "b < now"
  shows "list_all (\<lambda>x. f x \<le> now) xs" "now \<notin> f ` set xs"
  using assms by (auto simp: list_all_iff)

lemma ids_below_mono: "ids_below b w \<Longrightarrow> b < now \<Longrightarrow> ids_below now w"
  by (simp add: ids_below_def fresh_id(1)[of _ b])

lemma ids_below_add:
  assumes "ids_below b w" "b < now" "add_new section_key now w = Inr w'"
  shows "ids_below now w'"
proof -
  note up = ids_below_mono[OF assms(1,2), unfolded ids_below_def]
  note low = assms(1)[unfolded ids_below_def]
  consider (edu) "section_key = ''education''" | (exp) "section_key = ''experience''"
    | (proj) "section_key = ''portfolio''"
    using assms(3) by (auto simp: add_new_def Let_def split: if_splits)
  then show ?thesis
  proof cases
    case edu
    then have "w' = w\<lparr>data := (data w)\<lparr>education := education (data w) @
                  [\<lparr>edu_id = now, institution = '''', degree = '''', edu_dates = ''''\<rparr>]\<rparr>\<rparr>"
      using assms(3) by (simp add: add_new_def Let_def)
    then show ?thesis
      using up fresh_id(2)[of edu_id b "education (data w)" now] low assms(2)
      by (simp add: ids_below_def)
  next
    case exp
    then have "w' = w\<lparr>data := (data w)\<lparr>experience := experience (data w) @
                  [\<lparr>exp_id = now, title = '''', company = '''', exp_dates = '''', bullets = ''''\<rparr>]\<rparr>\<rparr>"
      using assms(3) by (simp add: add_new_def Let_def)
    then show ?thesis
      using up fresh_id(2)[of exp_id b "experience (data w)" now] low assms(2)
      by (simp add: ids_below_def)
  next
    case proj
    then have "w' = w\<lparr>data := (data w)\<lparr>portfolio := portfolio (data w) @
                  [\<lparr>proj_id = now, proj_name = '''', link = '''', description = ''''\<rparr>]\<rparr>\<rparr>"
      using assms(3) by (simp add: add_new_def Let_def)
    then show ?thesis
      using up fresh_id(2)[of proj_id b "portfolio (data w)" now] low assms(2)
      by (simp add: ids_below_def)
  qed
qed

lemma ids_below_remove:
  assumes "ids_below b w" "remove_entry section_key i w = Inr w'"
  shows "ids_below b w'"
proof -
  note low = assms(1)[unfolded ids_below_def]
  consider (edu) "section_key = ''education''" | (exp) "section_key = ''experience''"
    | (proj) "section_key = ''portfolio''"
    using assms(2) by (auto simp: remove_entry_def Let_def split: if_splits)
  then show ?thesis
  proof cases
    case edu
    then have "w' = w\<lparr>data := (data w)\<lparr>education :=
                 take i (education (data w)) @ drop (Suc i) (education (data w))\<rparr>\<rparr>"
      using assms(2) by (simp add: remove_entry_def pop_def Let_def split: if_splits)
    then show ?thesis
      using low distinct_map_pop[of edu_id "education (data w)" i]
        list_all_pop[of "\<lambda>x. edu_id x \<le> b" "education (data w)" i]
      by (simp add: ids_below_def)
  next
    case exp
    then have "w' = w\<lparr>data := (data w)\<lparr>experience :=
                 take i (experience (data w)) @ drop (Suc i) (experience (data w))\<rparr>\<rparr>"
      using assms(2) by (simp add: remove_entry_def pop_def Let_def split: if_splits)
    then show ?thesis
      using low distinct_map_pop[of exp_id "experience (data w)" i]
        list_all_pop[of "\<lambda>x. exp_id x \<le> b" "experience (data w)" i]
      by (simp add: ids_below_def)
  next
    case proj
    then have "w' = w\<lparr>data := (data w)\<lparr>portfolio :=
                 take i (portfolio (data w)) @ drop (Suc i) (portfolio (data w))\<rparr>\<rparr>"
      using assms(2) by (simp add: remove_entry_def pop_def Let_def split: if_splits)
    then show ?thesis
      using low distinct_map_pop[of proj_id "portfolio (data w)" i]
        list_all_pop[of "\<lambda>x. proj_id x \<le> b" "portfolio (data w)" i]
      by (simp add: ids_below_def)
  qed
qed

lemma ids_stay_distinct:
  "ids_below b w \<Longrightarrow> increasing_clock b as \<Longrightarrow> run as w = Inr w' \<Longrightarrow> \<exists>b'. ids_below b' w'"
proof (induction as arbitrary: b w)
  case Nil
  then show ?case by auto
next
  case (Cons a as)
  from Cons.prems(3) obtain w1 where w1: "act a w = Inr w1" "run as w1 = Inr w'"
    by (auto split: sum.splits)
  show ?case
  proof (cases a)
    case (AddNew section_key now)
    then have "ids_below now w1" "increasing_clock now as"
      using Cons.prems(1,2) w1(1) by (auto intro: ids_below_add)
    then show ?thesis using Cons.IH w1(2) by blast
  next
    case (Remove section_key i)
    then have "ids_below b w1" "increasing_clock b as"
      using Cons.prems(1,2) w1(1) by (auto intro: ids_below_remove)
    then show ?thesis using Cons.IH w1(2) by blast
  qed
qed

lemma initial_ids_below: "ids_below 1 initial_world"
  by (simp add: ids_below_def initial_world_def initial_data_def)

lemma ids_distinct_under_increasing_clock:
  assumes "increasing_clock 1 as" and "run as initial_world = Inr w'"
  shows "distinct (map edu_id (education (data w'))) \<and>
         distinct (map exp_id (experience (data w'))) \<and>
         distinct (map proj_id (portfolio (data w')))"
  using ids_stay_distinct[OF initial_ids_below assms] by (auto simp: ids_below_def)

text \<open>
  Claim C7, at two failing inputs. An added entry takes the clock reading of the click as
  its id. Two clicks on the button that adds an experience entry, at the same clock
  reading, leave two entries with the same id in the sequence; and a project added at
  the reading of a project that was removed before carries the removed project's id
  again. When the readings grow strictly from above 1, the ids of each sequence stay
  distinct (\<open>ids_distinct_under_increasing_clock\<close>).
\<close>

theorem equal_clock_readings_give_equal_ids:
  "(\<exists>w'. run [AddNew ''experience'' 1730000000.5, AddNew ''experience'' 1730000000.5] initial_world = Inr w' \<and>
         map exp_id (experience (data w')) = [1, 1730000000.5, 1730000000.5] \<and>
         \<not> distinct (map exp_id (experience (data w')))) \<and>
   (\<exists>w'. run [AddNew ''portfolio'' 1730000000.5, Remove ''portfolio'' 1, AddNew ''portfolio'' 1730000000.5]
           initial_world = Inr w' \<and>
         map proj_id (portfolio (data w')) = [1, 1730000000.5])"
  by (simp add: add_new_def remove_entry_def pop_def Let_def initial_world_def initial_data_def)

end
